theory Spec2Isabelle
  imports Main "HOL-Library.Sublist" "HOL-Library.Multiset"
begin

section \<open>Batch installer of the Splunk Universal Forwarder: the embedding\<close>

text \<open>
  The development embeds \<^verbatim>\<open>src/install_splunk_uf.py\<close> (class \<^verbatim>\<open>SplunkInstaller\<close> and
  \<^verbatim>\<open>main\<close>). Conventions of the embedding:

  \<^item> Python text is a \<^typ>\<open>string\<close>; a character stands for the code point of the same
    number (0 to 255). Output read from a remote stream is the text after
    \<^verbatim>\<open>.read().decode()\<close>.
  \<^item> The source's message literals are Chinese; they are rendered here by English text of
    the same meaning. No branch of the source inspects a message, so only the structure of
    a message (which literal, which embedded value) carries over.
  \<^item> An exception is the text \<^verbatim>\<open>str(e)\<close> that the handlers of the source embed in their
    messages; a computation that may raise returns \<open>exn + 'a\<close> with \<open>Inl\<close> the exception.
  \<^item> The remote host, the SSH library, the file system, the clock and \<^verbatim>\<open>time.sleep\<close> are
    the environment: records of functions that say what each call returns or raises.
  \<^item> Logging is not modelled: it changes no value that the program reads.
\<close>

subsection \<open>Python text operations\<close>

type_synonym exn = string

definition quoted :: "string \<Rightarrow> string" where
  \<comment> \<open>the text between two single quote characters\<close>
  "quoted s = CHR 0x27 # s @ [CHR 0x27]"

definition py_isspace :: "char \<Rightarrow> bool" where
  \<comment> \<open>the code points below 256 that \<^verbatim>\<open>str.strip\<close> removes\<close>
  "py_isspace c = ((of_char c :: nat) \<in> {9, 10, 11, 12, 13, 28, 29, 30, 31, 32, 133, 160})"

definition strip :: "string \<Rightarrow> string" where
  "strip s = rev (dropWhile py_isspace (rev (dropWhile py_isspace s)))"

definition py_lower_char :: "char \<Rightarrow> char" where
  "py_lower_char c =
     (let n = (of_char c :: nat)
      in if (65 \<le> n \<and> n \<le> 90) \<or> (192 \<le> n \<and> n \<le> 222 \<and> n \<noteq> 215)
         then char_of (n + 32) else c)"

definition lower :: "string \<Rightarrow> string" where
  "lower s = map py_lower_char s"

definition endswith :: "string \<Rightarrow> string \<Rightarrow> bool" where
  "endswith s suf = (length suf \<le> length s \<and> drop (length s - length suf) s = suf)"

definition last_segment :: "string \<Rightarrow> string" where
  \<comment> \<open>\<^verbatim>\<open>s.split('/')[-1]\<close>: the text after the last slash, all of it when there is none\<close>
  "last_segment s = rev (takeWhile (\<lambda>c. c \<noteq> CHR ''/'') (rev s))"

fun str_nat :: "nat \<Rightarrow> string" where
  "str_nat n =
     (if n < 10 then [char_of (48 + n)]
      else str_nat (n div 10) @ [char_of (48 + n mod 10)])"

declare str_nat.simps [simp del]

definition str_int :: "int \<Rightarrow> string" where
  \<comment> \<open>\<^verbatim>\<open>str(i)\<close>, as an f-string formats an int\<close>
  "str_int i = (if i < 0 then CHR ''-'' # str_nat (nat (- i)) else str_nat (nat i))"

definition digit_val :: "char \<Rightarrow> nat option" where
  "digit_val c =
     (let n = (of_char c :: nat) in if 48 \<le> n \<and> n \<le> 57 then Some (n - 48) else None)"

fun parse_digits :: "nat \<Rightarrow> string \<Rightarrow> nat option" where
  \<comment> \<open>the rest of a decimal literal after a digit: digits, single underscores between them\<close>
  "parse_digits acc [] = Some acc"
| "parse_digits acc [c] =
     (case digit_val c of None \<Rightarrow> None | Some v \<Rightarrow> Some (10 * acc + v))"
| "parse_digits acc (c # d # ds) =
     (if c = CHR ''_''
      then (case digit_val d of None \<Rightarrow> None | Some v \<Rightarrow> parse_digits (10 * acc + v) ds)
      else (case digit_val c of None \<Rightarrow> None
            | Some v \<Rightarrow> parse_digits (10 * acc + v) (d # ds)))"

definition py_int :: "string \<Rightarrow> exn + int" where
  \<comment> \<open>\<^verbatim>\<open>int(s)\<close> in base 10: surrounding white space, an optional sign, a decimal literal;
      anything else raises ValueError (the limit that recent interpreters put on the
      number of digits is left out)\<close>
  "py_int s =
     (let t = strip s;
          neg = (case t of c # _ \<Rightarrow> c = CHR ''-'' | [] \<Rightarrow> False);
          body = (case t of c # r \<Rightarrow> if c = CHR ''-'' \<or> c = CHR ''+'' then r else t | [] \<Rightarrow> t);
          bad = Inl (''invalid literal for int() with base 10: '' @ quoted s)
      in case body of
           [] \<Rightarrow> bad
         | d # ds \<Rightarrow>
             (case digit_val d of
                None \<Rightarrow> bad
              | Some v \<Rightarrow>
                  (case parse_digits v ds of
                     None \<Rightarrow> bad
                   | Some n \<Rightarrow> Inr (if neg then - int n else int n))))"

subsection \<open>The run configuration\<close>

text \<open>
  The configuration is the dictionary that \<^verbatim>\<open>json.load\<close> returns. A key that the source
  reads with \<^verbatim>\<open>.get(key, default)\<close> is an optional field (\<open>None\<close>: the key is absent);
  \<^verbatim>\<open>servers\<close> is read with the default \<^verbatim>\<open>[]\<close>, so an absent key is the empty list.
  \<^verbatim>\<open>host\<close> is the one key of a server that the source reads without a default.
\<close>

record server =
  host :: string
  port :: "int option"
  username :: "string option"
  password :: "string option"
  key_file :: "string option"
  os_type :: "string option"

record limits =
  min_memory_mb :: "int option"
  min_disk_mb :: "int option"

record splunk_cfg =
  download_url :: "string option"
  deployment_server :: "string option"
  receiving_indexer :: "string option"

record config =
  servers :: "server list"
  max_concurrent_installs :: "int option"
  delay_between_batches_seconds :: "int option"
  resource_limits :: "limits option"
  splunk_config :: "splunk_cfg option"
  force_reinstall :: "bool option"
  cleanup_after_install :: "bool option"

definition get_default :: "'a option \<Rightarrow> 'a \<Rightarrow> 'a" where
  \<comment> \<open>\<^verbatim>\<open>d.get(key, default)\<close> on an optional field\<close>
  "get_default v d = (case v of None \<Rightarrow> d | Some x \<Rightarrow> x)"

subsection \<open>The remote session\<close>

text \<open>
  \<^verbatim>\<open>exec_command\<close> either raises or returns the streams of a channel. Reading a stream
  may raise as well (a time-out, undecodable bytes). What the host answers may depend on
  the commands it has received before, so the answer is a function of that history and of
  the command. The client records every command passed to \<^verbatim>\<open>exec_command\<close>, in order,
  and counts the calls of \<^verbatim>\<open>close\<close>. The time-outs of the source are arguments of the
  library call and only decide when it raises.
\<close>

record channel =
  recv_exit_status :: int
  stdout_read :: "exn + string"
  stderr_read :: "exn + string"

record peer =
  respond :: "string list \<Rightarrow> string \<Rightarrow> exn + channel"
  close_raises :: "exn option"

record ssh_client =
  peer :: peer
  issued :: "string list"
  close_calls :: nat

definition exec_command :: "ssh_client \<Rightarrow> string \<Rightarrow> (exn + channel) \<times> ssh_client" where
  "exec_command c cmd = (respond (peer c) (issued c) cmd, c\<lparr>issued := issued c @ [cmd]\<rparr>)"

definition close :: "ssh_client \<Rightarrow> exn option \<times> ssh_client" where
  "close c = (close_raises (peer c), c\<lparr>close_calls := Suc (close_calls c)\<rparr>)"

definition read_stripped :: "exn + string \<Rightarrow> exn + string" where
  \<comment> \<open>\<^verbatim>\<open>stream.read().decode().strip()\<close>\<close>
  "read_stripped r = (case r of Inl e \<Rightarrow> Inl e | Inr s \<Rightarrow> Inr (strip s))"

datatype credential = KeyFilename string | Password "string option"

record host_env =
  path_exists :: "string \<Rightarrow> bool"
  connect :: "string \<Rightarrow> int \<Rightarrow> string \<Rightarrow> credential \<Rightarrow> exn + peer"
  clock_start :: string
  clock_except :: string
  sleep :: "int \<Rightarrow> exn option"

definition create_ssh_client ::
  "host_env \<Rightarrow> string \<Rightarrow> int \<Rightarrow> string \<Rightarrow> string option \<Rightarrow> string option \<Rightarrow> exn + ssh_client"
where
  "create_ssh_client env h p u pw kf =
     (let r = (case kf of
                 Some k \<Rightarrow>
                   if k \<noteq> [] \<and> path_exists env k then connect env h p u (KeyFilename k)
                   else connect env h p u (Password pw)
               | None \<Rightarrow> connect env h p u (Password pw))
      in case r of
           Inl e \<Rightarrow> Inl e
         | Inr pr \<Rightarrow> Inr \<lparr>peer = pr, issued = [], close_calls = 0\<rparr>)"

subsection \<open>Sequencing calls that may raise\<close>

definition then_do ::
  "(exn + 'a) \<times> 's \<Rightarrow> ('a \<Rightarrow> 's \<Rightarrow> (exn + 'b) \<times> 's) \<Rightarrow> (exn + 'b) \<times> 's"
where
  \<comment> \<open>the rest of a \<^verbatim>\<open>try\<close> body runs only when the call before it has not raised\<close>
  "then_do m f = (case m of (Inl e, s) \<Rightarrow> (Inl e, s) | (Inr x, s) \<Rightarrow> f x s)"

definition run_stdout :: "ssh_client \<Rightarrow> string \<Rightarrow> (exn + string) \<times> ssh_client" where
  \<comment> \<open>\<^verbatim>\<open>exec_command(cmd)\<close> followed by \<^verbatim>\<open>stdout.read().decode().strip()\<close>\<close>
  "run_stdout c cmd =
     then_do (exec_command c cmd) (\<lambda>ch c'. (read_stripped (stdout_read ch), c'))"

definition run_status :: "ssh_client \<Rightarrow> string \<Rightarrow> (exn + unit) \<times> ssh_client" where
  \<comment> \<open>\<^verbatim>\<open>exec_command(cmd)\<close> followed by a \<^verbatim>\<open>recv_exit_status()\<close> whose value is dropped\<close>
  "run_status c cmd = then_do (exec_command c cmd) (\<lambda>ch c'. (Inr (), c'))"

definition except_false ::
  "(exn + bool \<times> string) \<times> ssh_client \<Rightarrow> (bool \<times> string) \<times> ssh_client"
where
  \<comment> \<open>\<^verbatim>\<open>except Exception as e: return False, str(e)\<close>\<close>
  "except_false m = (case m of (Inl e, c) \<Rightarrow> ((False, e), c) | (Inr r, c) \<Rightarrow> (r, c))"

subsection \<open>The guards\<close>

definition installed_cmd :: string where
  "installed_cmd = ''test -d /opt/splunkforwarder && echo '' @ quoted ''exists''"

definition check_if_installed :: "ssh_client \<Rightarrow> bool \<times> ssh_client" where
  "check_if_installed c =
     (case run_stdout c installed_cmd of
        (Inl e, c') \<Rightarrow> (False, c')
      | (Inr result, c') \<Rightarrow> (result = ''exists'', c'))"

definition free_cmd :: string where
  "free_cmd = ''free -m | grep Mem | awk '' @ quoted ''{print $7}''"

definition df_cmd :: string where
  "df_cmd = ''df -m /opt | tail -1 | awk '' @ quoted ''{print $4}''"

definition check_system_resources_try ::
  "config \<Rightarrow> ssh_client \<Rightarrow> (exn + bool \<times> string) \<times> ssh_client"
where
  "check_system_resources_try cfg c =
     then_do (run_stdout c ''uptime'') (\<lambda>uptime_output c1.
     then_do (run_stdout c1 free_cmd) (\<lambda>mem_text c2.
     then_do (py_int mem_text, c2) (\<lambda>available_mem c2.
     then_do (run_stdout c2 df_cmd) (\<lambda>disk_text c3.
     then_do (py_int disk_text, c3) (\<lambda>available_disk c3.
       (let lim = get_default (resource_limits cfg) \<lparr>min_memory_mb = None, min_disk_mb = None\<rparr>;
            min_memory = get_default (min_memory_mb lim) 512;
            min_disk = get_default (min_disk_mb lim) 2048
        in if available_mem < min_memory
           then (Inr (False, ''insufficient memory (available: '' @ str_int available_mem
                        @ ''MB, required: '' @ str_int min_memory @ ''MB)''), c3)
           else if available_disk < min_disk
           then (Inr (False, ''insufficient disk space (available: '' @ str_int available_disk
                        @ ''MB, required: '' @ str_int min_disk @ ''MB)''), c3)
           else (Inr (True, ''resource check passed''), c3)))))))"

definition check_system_resources ::
  "config \<Rightarrow> ssh_client \<Rightarrow> (bool \<times> string) \<times> ssh_client"
where
  "check_system_resources cfg c = except_false (check_system_resources_try cfg c)"

subsection \<open>Fetching the package\<close>

definition downloaded_cmd :: "string \<Rightarrow> string" where
  "downloaded_cmd package_name =
     ''test -f /tmp/'' @ package_name @ '' && echo '' @ quoted ''exists''"

definition download_cmd :: "string \<Rightarrow> string \<Rightarrow> string" where
  "download_cmd package_name url =
     ''cd /tmp && wget -q -O '' @ package_name @ '' '' @ quoted url
       @ '' || curl -s -o '' @ package_name @ '' '' @ quoted url"

definition download_splunk_package_try ::
  "ssh_client \<Rightarrow> string \<Rightarrow> string \<Rightarrow> (exn + bool \<times> string) \<times> ssh_client"
where
  \<comment> \<open>\<^verbatim>\<open>detected_os\<close> and the parameter \<^verbatim>\<open>os_type\<close> are read nowhere in the source function\<close>
  "download_splunk_package_try c url os =
     then_do (run_stdout c ''uname -s'') (\<lambda>uname_output c1.
       (let detected_os = lower uname_output;
            package_name = last_segment url
        in then_do (run_stdout c1 (downloaded_cmd package_name)) (\<lambda>found c2.
             if found = ''exists'' then (Inr (True, ''/tmp/'' @ package_name), c2)
             else
               then_do (exec_command c2 (download_cmd package_name url)) (\<lambda>ch c3.
                 if recv_exit_status ch \<noteq> 0
                 then then_do (read_stripped (stderr_read ch), c3) (\<lambda>error_msg c3.
                        (Inr (False, ''download failed: '' @ error_msg), c3))
                 else (Inr (True, ''/tmp/'' @ package_name), c3)))))"

definition download_splunk_package ::
  "ssh_client \<Rightarrow> string \<Rightarrow> string \<Rightarrow> (bool \<times> string) \<times> ssh_client"
where
  "download_splunk_package c url os =
     except_false (download_splunk_package_try c url os)"

subsection \<open>Installing\<close>

definition run_install :: "ssh_client \<Rightarrow> string \<Rightarrow> (exn + bool \<times> string) \<times> ssh_client" where
  \<comment> \<open>the part of \<^verbatim>\<open>install_splunk\<close> after the install command has been chosen\<close>
  "run_install c install_cmd =
     then_do (exec_command c install_cmd) (\<lambda>ch c1.
       if recv_exit_status ch \<noteq> 0
       then then_do (read_stripped (stderr_read ch), c1) (\<lambda>error_msg c1.
              (Inr (False, ''install failed: '' @ error_msg), c1))
       else (Inr (True, ''install succeeded''), c1))"

definition install_splunk_try ::
  "ssh_client \<Rightarrow> string \<Rightarrow> string \<Rightarrow> (exn + bool \<times> string) \<times> ssh_client"
where
  "install_splunk_try c package_path os =
     (if lower os \<in> set [''linux'', ''unix'']
      then (if endswith package_path ''.tgz'' \<or> endswith package_path ''.tar.gz''
            then run_install c (''cd /opt && tar xzf '' @ package_path)
            else if endswith package_path ''.rpm''
            then run_install c (''rpm -ivh '' @ package_path)
            else if endswith package_path ''.deb''
            then run_install c (''dpkg -i '' @ package_path)
            else (Inr (False, ''unsupported package format: '' @ package_path), c))
      else (Inr (False, ''unsupported operating system: '' @ os), c))"

definition install_splunk ::
  "ssh_client \<Rightarrow> string \<Rightarrow> string \<Rightarrow> (bool \<times> string) \<times> ssh_client"
where
  "install_splunk c package_path os = except_false (install_splunk_try c package_path os)"

subsection \<open>Configuring\<close>

definition splunk_bin :: string where
  "splunk_bin = ''/opt/splunkforwarder/bin/splunk''"

definition configure_splunk_try :: "config \<Rightarrow> ssh_client \<Rightarrow> (exn + bool \<times> string) \<times> ssh_client"
where
  "configure_splunk_try cfg c =
     (let sc = get_default (splunk_config cfg)
                 \<lparr>download_url = None, deployment_server = None, receiving_indexer = None\<rparr>;
          ds = get_default (deployment_server sc) [];
          ri = get_default (receiving_indexer sc) []
      in
      then_do (run_status c (splunk_bin @ '' start --accept-license --answer-yes --no-prompt''))
        (\<lambda>_ c1.
      then_do (run_status c1 (splunk_bin @ '' stop'')) (\<lambda>_ c2.
      then_do (if ds \<noteq> []
               then run_status c2 (splunk_bin @ '' set deploy-poll '' @ ds @ '' -auth admin:changeme'')
               else (Inr (), c2)) (\<lambda>_ c3.
      then_do (if ri \<noteq> []
               then run_status c3 (splunk_bin @ '' add forward-server '' @ ri @ '' -auth admin:changeme'')
               else (Inr (), c3)) (\<lambda>_ c4.
      then_do (run_status c4 (splunk_bin @ '' enable boot-start'')) (\<lambda>_ c5.
      then_do (exec_command c5 (splunk_bin @ '' start'')) (\<lambda>ch c6.
        if recv_exit_status ch \<noteq> 0
        then then_do (read_stripped (stderr_read ch), c6) (\<lambda>error_msg c6.
               (Inr (False, ''start failed: '' @ error_msg), c6))
        else (Inr (True, ''configuration succeeded''), c6))))))))"

definition configure_splunk :: "config \<Rightarrow> ssh_client \<Rightarrow> (bool \<times> string) \<times> ssh_client" where
  "configure_splunk cfg c = except_false (configure_splunk_try cfg c)"

definition cleanup :: "config \<Rightarrow> ssh_client \<Rightarrow> string \<Rightarrow> ssh_client" where
  \<comment> \<open>an exception of the removal is logged and dropped\<close>
  "cleanup cfg c package_path =
     (if get_default (cleanup_after_install cfg) True
      then snd (exec_command c (''rm -f '' @ package_path))
      else c)"

subsection \<open>The workflow on one server\<close>

record result =
  result_host :: string
  success :: bool
  message :: string
  timestamp :: string

definition workflow :: "config \<Rightarrow> server \<Rightarrow> result \<Rightarrow> ssh_client \<Rightarrow> (exn + result) \<times> ssh_client"
where
  \<comment> \<open>steps 2 to 7 of \<^verbatim>\<open>install_on_server\<close>, inside its \<^verbatim>\<open>try\<close>; the one exception that
      can leave them is the KeyError of \<^verbatim>\<open>self.config['splunk_config']['download_url']\<close>\<close>
  "workflow cfg srv res c =
     (let (is_installed, c1) = check_if_installed c
      in if is_installed \<and> \<not> get_default (force_reinstall cfg) False
         then (Inr (res\<lparr>success := True, message := ''Splunk UF already installed, skipping''\<rparr>), c1)
         else
           (let ((resource_ok, resource_msg), c2) = check_system_resources cfg c1
            in if \<not> resource_ok
               then (Inr (res\<lparr>message := ''resource check failed: '' @ resource_msg\<rparr>), c2)
               else
                 (case splunk_config cfg of
                    None \<Rightarrow> (Inl (quoted ''splunk_config''), c2)
                  | Some sc \<Rightarrow>
                 (case download_url sc of
                    None \<Rightarrow> (Inl (quoted ''download_url''), c2)
                  | Some url \<Rightarrow>
                 (let os = get_default (os_type srv) ''linux'';
                      ((download_ok, package_path), c3) = download_splunk_package c2 url os
                  in if \<not> download_ok
                     then (Inr (res\<lparr>message := ''download failed: '' @ package_path\<rparr>), c3)
                     else
                 (let ((install_ok, install_msg), c4) = install_splunk c3 package_path os
                  in if \<not> install_ok
                     then (Inr (res\<lparr>message := ''install failed: '' @ install_msg\<rparr>), c4)
                     else
                 (let ((config_ok, config_msg), c5) = configure_splunk cfg c4
                  in if \<not> config_ok
                     then (Inr (res\<lparr>message := ''configuration failed: '' @ config_msg\<rparr>), c5)
                     else (Inr (res\<lparr>success := True,
                                     message := ''installed and configured successfully''\<rparr>),
                           cleanup cfg c5 package_path))))))))"

definition install_steps ::
  "config \<Rightarrow> server \<Rightarrow> result \<Rightarrow> ssh_client \<Rightarrow> (exn + result) \<times> ssh_client"
where
  \<comment> \<open>steps 3 to 7 of \<^verbatim>\<open>install_on_server\<close> on their own: what the workflow runs once the
      guard on an existing installation has let it pass\<close>
  "install_steps cfg srv res c1 =
     (let ((resource_ok, resource_msg), c2) = check_system_resources cfg c1
      in if \<not> resource_ok
         then (Inr (res\<lparr>message := ''resource check failed: '' @ resource_msg\<rparr>), c2)
         else
           (case splunk_config cfg of
              None \<Rightarrow> (Inl (quoted ''splunk_config''), c2)
            | Some sc \<Rightarrow>
           (case download_url sc of
              None \<Rightarrow> (Inl (quoted ''download_url''), c2)
            | Some url \<Rightarrow>
           (let os = get_default (os_type srv) ''linux'';
                ((download_ok, package_path), c3) = download_splunk_package c2 url os
            in if \<not> download_ok
               then (Inr (res\<lparr>message := ''download failed: '' @ package_path\<rparr>), c3)
               else
           (let ((install_ok, install_msg), c4) = install_splunk c3 package_path os
            in if \<not> install_ok
               then (Inr (res\<lparr>message := ''install failed: '' @ install_msg\<rparr>), c4)
               else
           (let ((config_ok, config_msg), c5) = configure_splunk cfg c4
            in if \<not> config_ok
               then (Inr (res\<lparr>message := ''configuration failed: '' @ config_msg\<rparr>), c5)
               else (Inr (res\<lparr>success := True,
                               message := ''installed and configured successfully''\<rparr>),
                     cleanup cfg c5 package_path)))))))"

definition connect_server :: "host_env \<Rightarrow> server \<Rightarrow> exn + ssh_client" where
  \<comment> \<open>step 1 of \<^verbatim>\<open>install_on_server\<close>: the call of \<^verbatim>\<open>create_ssh_client\<close>\<close>
  "connect_server env srv =
     create_ssh_client env (host srv) (get_default (port srv) 22)
       (get_default (username srv) ''root'') (password srv) (key_file srv)"

definition install_on_server ::
  "host_env \<Rightarrow> config \<Rightarrow> server \<Rightarrow> (exn + result) \<times> ssh_client option"
where
  \<comment> \<open>the second component is the client as the call leaves it (\<open>None\<close>: never connected);
      an exception raised by \<^verbatim>\<open>close\<close> in the \<^verbatim>\<open>finally\<close> block leaves the function\<close>
  "install_on_server env cfg srv =
     (let res = \<lparr>result_host = host srv, success = False, message = [],
                 timestamp = clock_start env\<rparr>
      in case connect_server env srv of
           Inl e \<Rightarrow> (Inr (res\<lparr>message := ''exception: '' @ e\<rparr>), None)
         | Inr c \<Rightarrow>
             (let (r, c1) = workflow cfg srv res c;
                  res1 = (case r of Inl e \<Rightarrow> res\<lparr>message := ''exception: '' @ e\<rparr>
                          | Inr res' \<Rightarrow> res');
                  (raised, c2) = close c1
              in case raised of
                   Some e \<Rightarrow> (Inl e, Some c2)
                 | None \<Rightarrow> (Inr res1, Some c2)))"

subsection \<open>The fleet run\<close>

text \<open>
  Every server of the list is submitted to the pool, each workflow with an environment of
  its own (the one of its position in the list). The workflows share nothing, so the pool
  only decides the order in which \<^verbatim>\<open>as_completed\<close> hands the futures to the loop; that
  order is a function of the environment. \<^verbatim>\<open>ThreadPoolExecutor\<close> raises ValueError when
  \<^verbatim>\<open>max_workers\<close> is not positive.
\<close>

record installer =
  config :: config
  results :: "result list"

record summary =
  total :: nat
  succeeded :: nat
  failed :: nat
  failed_servers :: "(string \<times> string) list"


record fleet_env =
  host_envs :: "nat \<Rightarrow> host_env"
  as_completed :: "(nat \<times> server) list \<Rightarrow> (nat \<times> server) list"


definition on_completed ::
  "fleet_env \<Rightarrow> config \<Rightarrow> int \<Rightarrow> result list \<Rightarrow> nat \<times> server \<Rightarrow> result list"
where
  \<comment> \<open>the body of the loop over \<^verbatim>\<open>as_completed(futures)\<close>: the append and the sleep are in
      one \<^verbatim>\<open>try\<close>, whose handler appends a failure result\<close>
  "on_completed fe cfg delay rs job =
     (let env = host_envs fe (fst job);
          srv = snd job;
          failure = (\<lambda>e. \<lparr>result_host = host srv, success = False, message = e,
                            timestamp = clock_except env\<rparr>)
      in case fst (install_on_server env cfg srv) of
           Inl e \<Rightarrow> rs @ [failure e]
         | Inr res \<Rightarrow>
             (if delay > 0
              then (case sleep env delay of
                      None \<Rightarrow> rs @ [res]
                    | Some e \<Rightarrow> rs @ [res] @ [failure e])
              else rs @ [res]))"


subsection \<open>The process\<close>






subsection \<open>Example hosts and configurations\<close>

definition reply :: "int \<Rightarrow> string \<Rightarrow> string \<Rightarrow> exn + channel" where
  "reply st out err = Inr \<lparr>recv_exit_status = st, stdout_read = Inr out, stderr_read = Inr err\<rparr>"

definition answers :: "(string \<times> (exn + channel)) list \<Rightarrow> peer" where
  \<comment> \<open>a host that answers the listed commands as listed and every other command with
      exit status 0 and empty streams, whatever came before\<close>
  "answers tbl =
     \<lparr>respond = (\<lambda>h cmd. case map_of tbl cmd of Some r \<Rightarrow> r | None \<Rightarrow> reply 0 [] []),
      close_raises = None\<rparr>"

definition env_of :: "peer \<Rightarrow> host_env" where
  "env_of pr =
     \<lparr>path_exists = (\<lambda>_. False), connect = (\<lambda>_ _ _ _. Inr pr),
      clock_start = ''t0'', clock_except = ''t1'', sleep = (\<lambda>_. None)\<rparr>"

definition example_url :: string where
  "example_url = ''https://example.com/dl/uf.tgz''"

definition example_server :: server where
  "example_server =
     \<lparr>host = ''10.0.0.1'', port = None, username = None, password = Some ''pw'',
      key_file = None, os_type = None\<rparr>"

definition example_config :: config where
  "example_config =
     \<lparr>servers = [example_server], max_concurrent_installs = None,
      delay_between_batches_seconds = None, resource_limits = None,
      splunk_config = Some \<lparr>download_url = Some example_url,
                             deployment_server = Some ''ds:8089'',
                             receiving_indexer = None\<rparr>,
      force_reinstall = None, cleanup_after_install = None\<rparr>"

definition bare_host :: peer where
  \<comment> \<open>no forwarder, no package in /tmp, 3000 MB of memory and 50000 MB of disk free\<close>
  "bare_host = answers [(free_cmd, reply 0 ''3000'' []), (df_cmd, reply 0 ''50000'' [])]"

definition provisioned_host :: peer where
  "provisioned_host =
     answers [(installed_cmd, reply 0 ''exists'' []),
              (free_cmd, reply 0 ''3000'' []), (df_cmd, reply 0 ''50000'' [])]"

definition low_memory_host :: peer where
  "low_memory_host = answers [(free_cmd, reply 0 ''100'' []), (df_cmd, reply 0 ''50000'' [])]"

definition cached_host :: peer where
  "cached_host =
     answers [(free_cmd, reply 0 ''3000'' []), (df_cmd, reply 0 ''50000'' []),
              (downloaded_cmd ''uf.tgz'', reply 0 ''exists'' [])]"

definition failing_start_host :: peer where
  "failing_start_host =
     answers [(free_cmd, reply 0 ''3000'' []), (df_cmd, reply 0 ''50000'' []),
              (splunk_bin @ '' start'', reply 1 [] ''splunkd did not start'')]"




subsection \<open>Auxiliary notions for the statements\<close>

definition continues :: "ssh_client \<Rightarrow> ssh_client \<Rightarrow> bool" where
  \<comment> \<open>\<open>c'\<close> is a later state of the session \<open>c\<close>: the same host, no call of
      \<^verbatim>\<open>close\<close> in between, and the commands of \<open>c\<close> followed by further ones\<close>
  "continues c c' =
     (peer c' = peer c \<and> close_calls c' = close_calls c \<and> prefix (issued c) (issued c'))"

definition configure_commands :: "config \<Rightarrow> string list" where
  \<comment> \<open>the commands of \<^verbatim>\<open>configure_splunk\<close> in the order of the source\<close>
  "configure_commands cfg =
     (let sc = get_default (splunk_config cfg)
                 \<lparr>download_url = None, deployment_server = None, receiving_indexer = None\<rparr>;
          ds = get_default (deployment_server sc) [];
          ri = get_default (receiving_indexer sc) []
      in [splunk_bin @ '' start --accept-license --answer-yes --no-prompt'',
          splunk_bin @ '' stop'']
         @ (if ds \<noteq> [] then [splunk_bin @ '' set deploy-poll '' @ ds @ '' -auth admin:changeme'']
            else [])
         @ (if ri \<noteq> [] then [splunk_bin @ '' add forward-server '' @ ri @ '' -auth admin:changeme'']
            else [])
         @ [splunk_bin @ '' enable boot-start'', splunk_bin @ '' start''])"


section \<open>Properties\<close>

subsection \<open>Sessions: what every stage preserves\<close>

lemma then_do_Inl [simp]: "then_do (Inl e, s) f = (Inl e, s)"
  by (simp add: then_do_def)

lemma then_do_Inr [simp]: "then_do (Inr x, s) f = f x s"
  by (simp add: then_do_def)

lemma continues_refl [simp]: "continues c c"
  by (simp add: continues_def)

lemma continues_trans: "continues a b \<Longrightarrow> continues b c \<Longrightarrow> continues a c"
  by (auto simp: continues_def)

lemma continues_exec: "continues c (snd (exec_command c cmd))"
  by (simp add: continues_def exec_command_def)

lemma continues_then_do:
  assumes "continues c (snd m)"
    and "\<And>x s. continues c s \<Longrightarrow> continues c (snd (f x s))"
  shows "continues c (snd (then_do m f))"
  using assms by (cases m) (auto simp: then_do_def split: sum.splits)

lemma continues_pure: "continues c s \<Longrightarrow> continues c (snd (r, s))"
  by simp

lemma continues_exec': "continues c s \<Longrightarrow> continues c (snd (exec_command s cmd))"
  using continues_exec continues_trans by blast

lemma continues_run_stdout: "continues c s \<Longrightarrow> continues c (snd (run_stdout s cmd))"
  unfolding run_stdout_def by (intro continues_then_do continues_exec') simp_all

lemma continues_run_status: "continues c s \<Longrightarrow> continues c (snd (run_status s cmd))"
  unfolding run_status_def by (intro continues_then_do continues_exec') simp_all

lemma continues_except_false: "continues c (snd m) \<Longrightarrow> continues c (snd (except_false m))"
  by (cases m) (auto simp: except_false_def split: sum.splits)

lemma continues_check_if_installed: "continues c s \<Longrightarrow> continues c (snd (check_if_installed s))"
  using continues_run_stdout [of c s installed_cmd]
  by (auto simp: check_if_installed_def split: prod.splits sum.splits)

lemma continues_check_system_resources:
  "continues c s \<Longrightarrow> continues c (snd (check_system_resources cfg s))"
  unfolding check_system_resources_def check_system_resources_try_def Let_def
  by (intro continues_except_false continues_then_do continues_run_stdout)
     (simp_all)

lemma continues_download:
  "continues c s \<Longrightarrow> continues c (snd (download_splunk_package s url os))"
  unfolding download_splunk_package_def download_splunk_package_try_def Let_def
  by (intro continues_except_false continues_then_do continues_run_stdout)
     (auto intro!: continues_then_do continues_exec')

lemma continues_run_install: "continues c s \<Longrightarrow> continues c (snd (run_install s cmd))"
  unfolding run_install_def
  by (intro continues_then_do continues_exec') (auto intro!: continues_then_do)

lemma continues_install:
  "continues c s \<Longrightarrow> continues c (snd (install_splunk s path os))"
  unfolding install_splunk_def install_splunk_try_def
  by (intro continues_except_false) (auto intro!: continues_run_install)

lemma continues_if:
  "(b \<Longrightarrow> continues c (snd x)) \<Longrightarrow> (\<not> b \<Longrightarrow> continues c (snd y)) \<Longrightarrow>
   continues c (snd (if b then x else y))"
  by simp

lemma continues_configure:
  "continues c s \<Longrightarrow> continues c (snd (configure_splunk cfg s))"
  unfolding configure_splunk_def configure_splunk_try_def Let_def
  by (intro continues_except_false continues_then_do continues_run_status continues_if
        continues_exec' continues_pure)

lemma continues_cleanup: "continues c s \<Longrightarrow> continues c (cleanup cfg s path)"
  by (simp add: cleanup_def continues_exec')

lemma continues_workflow:
  assumes "continues c s"
  shows "continues c (snd (workflow cfg srv res s))"
proof -
  obtain i c1 where 1: "check_if_installed s = (i, c1)"
    by (cases "check_if_installed s") auto
  obtain ok rm c2 where 2: "check_system_resources cfg c1 = ((ok, rm), c2)"
    by (cases "check_system_resources cfg c1") auto
  have k1: "continues c c1"
    using continues_check_if_installed [OF assms] 1 by simp
  have k2: "continues c c2"
    using continues_check_system_resources [OF k1, of cfg] 2 by simp
  show ?thesis
  proof (cases "i \<and> \<not> get_default (force_reinstall cfg) False")
    case True
    then show ?thesis by (simp add: workflow_def 1 k1)
  next
    case skip: False
    show ?thesis
    proof (cases ok)
      case False
      with skip show ?thesis by (simp add: workflow_def 1 2 k1 k2)
    next
      case ok: True
      show ?thesis
      proof (cases "splunk_config cfg")
        case None
        with skip ok show ?thesis by (simp add: workflow_def 1 2 k1 k2)
      next
        case (Some sc)
        show ?thesis
        proof (cases "download_url sc")
          case None
          with skip ok Some show ?thesis by (simp add: workflow_def 1 2 k1 k2)
        next
          case url: (Some url)
          define os where "os = get_default (os_type srv) ''linux''"
          obtain dok path c3 where 3: "download_splunk_package c2 url os = ((dok, path), c3)"
            by (cases "download_splunk_package c2 url os") auto
          obtain iok im c4 where 4: "install_splunk c3 path os = ((iok, im), c4)"
            by (cases "install_splunk c3 path os") auto
          obtain cok cm c5 where 5: "configure_splunk cfg c4 = ((cok, cm), c5)"
            by (cases "configure_splunk cfg c4") auto
          have k3: "continues c c3"
            using continues_download [OF k2, of url os] 3 by simp
          have k4: "continues c c4"
            using continues_install [OF k3, of path os] 4 by simp
          have k5: "continues c c5"
            using continues_configure [OF k4, of cfg] 5 by simp
          have k6: "continues c (cleanup cfg c5 path)"
            by (rule continues_cleanup [OF k5])
          from skip ok Some url show ?thesis
            by (simp add: workflow_def 1 2 3 4 5 k1 k2 k3 k4 k5 k6 os_def [symmetric])
        qed
      qed
    qed
  qed
qed

lemma run_stdout_eq:
  "run_stdout c cmd =
     ((case respond (peer c) (issued c) cmd of
         Inl e \<Rightarrow> Inl e
       | Inr ch \<Rightarrow> read_stripped (stdout_read ch)),
      c\<lparr>issued := issued c @ [cmd]\<rparr>)"
  by (simp add: run_stdout_def exec_command_def then_do_def split: sum.splits)

lemma run_status_eq:
  "run_status c cmd =
     ((case respond (peer c) (issued c) cmd of Inl e \<Rightarrow> Inl e | Inr ch \<Rightarrow> Inr ()),
      c\<lparr>issued := issued c @ [cmd]\<rparr>)"
  by (simp add: run_status_def exec_command_def then_do_def split: sum.splits)

lemma connect_server_fresh:
  "connect_server env srv = Inr c \<Longrightarrow> issued c = [] \<and> close_calls c = 0"
  by (auto simp: connect_server_def create_ssh_client_def Let_def split: sum.splits)

lemma install_on_server_connected:
  assumes "connect_server env srv = Inr c"
    and "workflow cfg srv \<lparr>result_host = host srv, success = False, message = [],
           timestamp = clock_start env\<rparr> c = (r, c1)"
  shows "install_on_server env cfg srv =
     ((case close_raises (peer c1) of
         Some e \<Rightarrow> Inl e
       | None \<Rightarrow> Inr (case r of
                        Inl e \<Rightarrow> \<lparr>result_host = host srv, success = False,
                                   message = ''exception: '' @ e, timestamp = clock_start env\<rparr>
                      | Inr res \<Rightarrow> res)),
      Some (c1\<lparr>close_calls := Suc (close_calls c1)\<rparr>))"
  using assms by (simp add: install_on_server_def close_def split: option.splits sum.splits)

text \<open>
  Claim C8. Whenever the connection to a server has been opened, the client that
  \<^verbatim>\<open>install_on_server\<close> leaves behind is the opened session with exactly one call of
  \<^verbatim>\<open>close\<close>, for every configuration and every behaviour of the host: the early skip, a
  failure of any stage, an exception inside the workflow and the full success all pass
  through the \<^verbatim>\<open>finally\<close> block.
\<close>

theorem session_closed_on_every_path:
  assumes "connect_server env srv = Inr c"
  shows "\<exists>c'. snd (install_on_server env cfg srv) = Some c' \<and> peer c' = peer c
           \<and> close_calls c' = 1"
proof -
  define res where "res = \<lparr>result_host = host srv, success = False, message = [],
           timestamp = clock_start env\<rparr>"
  obtain r c1 where w: "workflow cfg srv res c = (r, c1)"
    by (cases "workflow cfg srv res c") auto
  have "continues c c1"
    using continues_workflow [OF continues_refl, of c cfg srv res] w by simp
  moreover have "close_calls c = 0"
    using connect_server_fresh [OF assms] by simp
  ultimately show ?thesis
    using install_on_server_connected [OF assms w [unfolded res_def]]
    by (simp add: continues_def)
qed

lemmas fixture_defs = env_of_def answers_def reply_def example_server_def example_config_def
  example_url_def connect_server_def create_ssh_client_def get_default_def

theorem session_closed_on_every_path_witness:
  "\<exists>c'. snd (install_on_server (env_of bare_host) example_config example_server) = Some c'
      \<and> peer c' = bare_host \<and> close_calls c' = 1"
proof -
  have h: "connect_server (env_of bare_host) example_server
             = Inr \<lparr>peer = bare_host, issued = [], close_calls = 0\<rparr>"
    by (simp add: fixture_defs)
  show ?thesis
    using session_closed_on_every_path [OF h, of example_config] by simp
qed

subsection \<open>The guard on an existing installation\<close>

lemma check_if_installed_eq:
  "check_if_installed c =
     ((case respond (peer c) (issued c) installed_cmd of
         Inl e \<Rightarrow> False
       | Inr ch \<Rightarrow> (case stdout_read ch of Inl e \<Rightarrow> False | Inr out \<Rightarrow> strip out = ''exists'')),
      c\<lparr>issued := issued c @ [installed_cmd]\<rparr>)"
  by (simp add: check_if_installed_def run_stdout_eq read_stripped_def split: sum.splits)

lemma check_system_resources_starts:
  "continues (c\<lparr>issued := issued c @ [''uptime'']\<rparr>) (snd (check_system_resources cfg c))"
  unfolding check_system_resources_def check_system_resources_try_def Let_def
  apply (rule continues_except_false)
  apply (rule continues_then_do)
   apply (simp add: run_stdout_eq)
  apply (intro continues_then_do continues_run_stdout)
          apply simp_all
  done

lemma workflow_skipped:
  assumes "check_if_installed c = (True, c1)"
    and "\<not> get_default (force_reinstall cfg) False"
  shows "workflow cfg srv res c =
     (Inr (res\<lparr>success := True, message := ''Splunk UF already installed, skipping''\<rparr>), c1)"
  using assms by (simp add: workflow_def)

lemma workflow_not_skipped:
  assumes "check_if_installed c = (inst, c1)"
    and "\<not> (inst \<and> \<not> get_default (force_reinstall cfg) False)"
  shows "continues (snd (check_system_resources cfg c1)) (snd (workflow cfg srv res c))"
proof -
  obtain ok rm c2 where 2: "check_system_resources cfg c1 = ((ok, rm), c2)"
    by (cases "check_system_resources cfg c1") auto
  show ?thesis
  proof (cases "ok \<and> splunk_config cfg \<noteq> None
                 \<and> download_url (the (splunk_config cfg)) \<noteq> None")
    case False
    with assms 2 show ?thesis
      by (auto simp: workflow_def split: option.splits)
  next
    case True
    then obtain sc url where sc: "splunk_config cfg = Some sc" "download_url sc = Some url" ok
      by auto
    define os where "os = get_default (os_type srv) ''linux''"
    obtain dok path c3 where 3: "download_splunk_package c2 url os = ((dok, path), c3)"
      by (cases "download_splunk_package c2 url os") auto
    obtain iok im c4 where 4: "install_splunk c3 path os = ((iok, im), c4)"
      by (cases "install_splunk c3 path os") auto
    obtain cok cm c5 where 5: "configure_splunk cfg c4 = ((cok, cm), c5)"
      by (cases "configure_splunk cfg c4") auto
    have k3: "continues c2 c3"
      using continues_download [OF continues_refl, of c2 url os] 3 by simp
    have k4: "continues c2 c4"
      using continues_install [OF k3, of path os] 4 by simp
    have k5: "continues c2 c5"
      using continues_configure [OF k4, of cfg] 5 by simp
    have k6: "continues c2 (cleanup cfg c5 path)"
      by (rule continues_cleanup [OF k5])
    from assms(2) have ns: "(inst \<and> \<not> get_default (force_reinstall cfg) False) = False"
      by simp
    from sc show ?thesis
      by (simp add: workflow_def assms(1) ns 2 3 4 5 k3 k4 k5 k6 os_def [symmetric])
  qed
qed

subsection \<open>Fetching\<close>

lemma download_splunk_package_found:
  assumes "respond (peer c) (issued c) ''uname -s'' = Inr ch0"
    and "stdout_read ch0 = Inr os_out"
    and "respond (peer c) (issued c @ [''uname -s'']) (downloaded_cmd (last_segment url)) = Inr ch1"
    and "stdout_read ch1 = Inr out"
    and "strip out = ''exists''"
  shows "download_splunk_package c url os =
     ((True, ''/tmp/'' @ last_segment url),
      c\<lparr>issued := issued c @ [''uname -s'', downloaded_cmd (last_segment url)]\<rparr>)"
  using assms
  by (simp add: download_splunk_package_def download_splunk_package_try_def run_stdout_eq
        read_stripped_def except_false_def Let_def)

text \<open>
  Claim C7. On a host that answers the probe \<^verbatim>\<open>uname -s\<close> and whose test for the package
  file in \<^verbatim>\<open>/tmp\<close> answers \<^verbatim>\<open>exists\<close>, the fetch step returns the path of that file and
  issues the two probes only; a second fetch on the same session does the same, so the four
  probes are all that the host receives and no download command is among them.
\<close>

theorem fetch_is_idempotent:
  assumes "\<forall>h. \<exists>ch os_out. respond (peer c) h ''uname -s'' = Inr ch \<and> stdout_read ch = Inr os_out"
    and "\<forall>h. \<exists>ch out. respond (peer c) h (downloaded_cmd (last_segment url)) = Inr ch
            \<and> stdout_read ch = Inr out \<and> strip out = ''exists''"
  shows "download_splunk_package c url os =
           ((True, ''/tmp/'' @ last_segment url),
            c\<lparr>issued := issued c @ [''uname -s'', downloaded_cmd (last_segment url)]\<rparr>)
       \<and> download_splunk_package (snd (download_splunk_package c url os)) url os =
           ((True, ''/tmp/'' @ last_segment url),
            c\<lparr>issued := issued c @ [''uname -s'', downloaded_cmd (last_segment url),
                                    ''uname -s'', downloaded_cmd (last_segment url)]\<rparr>)"
proof -
  let ?t = "downloaded_cmd (last_segment url)"
  have first: "download_splunk_package c' url os =
      ((True, ''/tmp/'' @ last_segment url), c'\<lparr>issued := issued c' @ [''uname -s'', ?t]\<rparr>)"
    if "peer c' = peer c" for c'
  proof -
    from assms(1) obtain ch0 os_out where
        "respond (peer c) (issued c') ''uname -s'' = Inr ch0" "stdout_read ch0 = Inr os_out"
      by blast
    then have u: "respond (peer c') (issued c') ''uname -s'' = Inr ch0"
        "stdout_read ch0 = Inr os_out"
      using that by simp_all
    from assms(2) obtain ch1 out where
        "respond (peer c) (issued c' @ [''uname -s'']) ?t = Inr ch1"
        "stdout_read ch1 = Inr out" "strip out = ''exists''"
      by blast
    then have t: "respond (peer c') (issued c' @ [''uname -s'']) ?t = Inr ch1"
        "stdout_read ch1 = Inr out" "strip out = ''exists''"
      using that by simp_all
    show ?thesis
      by (rule download_splunk_package_found [OF u t])
  qed
  show ?thesis
    by (simp add: first)
qed

subsection \<open>What the example hosts answer\<close>

lemma strip_exists: "strip ''exists'' = ''exists''"
  by (simp add: strip_def py_isspace_def)

lemma segment_example_url: "last_segment example_url = ''uf.tgz''"
  by (simp add: last_segment_def example_url_def)

lemma cached_host_uname: "respond cached_host h ''uname -s'' = reply 0 [] []"
  by (simp add: cached_host_def answers_def free_cmd_def df_cmd_def downloaded_cmd_def quoted_def)

lemma cached_host_found: "respond cached_host h (downloaded_cmd ''uf.tgz'') = reply 0 ''exists'' []"
  by (simp add: cached_host_def answers_def free_cmd_def df_cmd_def downloaded_cmd_def quoted_def)

theorem fetch_is_idempotent_witness:
  "download_splunk_package (snd (download_splunk_package
       \<lparr>peer = cached_host, issued = [], close_calls = 0\<rparr> example_url ''linux''))
     example_url ''linux'' =
     ((True, ''/tmp/uf.tgz''),
      \<lparr>peer = cached_host,
        issued = [''uname -s'', downloaded_cmd ''uf.tgz'', ''uname -s'', downloaded_cmd ''uf.tgz''],
        close_calls = 0\<rparr>)"
proof -
  let ?c = "\<lparr>peer = cached_host, issued = [], close_calls = 0\<rparr>"
  have h1: "\<forall>h. \<exists>ch os_out. respond (peer ?c) h ''uname -s'' = Inr ch
               \<and> stdout_read ch = Inr os_out"
    by (simp add: cached_host_uname reply_def)
  have h2: "\<forall>h. \<exists>ch out. respond (peer ?c) h (downloaded_cmd (last_segment example_url)) = Inr ch
               \<and> stdout_read ch = Inr out \<and> strip out = ''exists''"
    by (simp add: segment_example_url cached_host_found reply_def strip_exists)
  note r = fetch_is_idempotent [OF h1 h2, of "''linux''"]
  have a: "download_splunk_package ?c example_url ''linux'' =
      ((True, ''/tmp/uf.tgz''),
       \<lparr>peer = cached_host, issued = [''uname -s'', downloaded_cmd ''uf.tgz''], close_calls = 0\<rparr>)"
    using r by (simp add: segment_example_url)
  show ?thesis
    using r by (simp add: segment_example_url a)
qed

lemma lower_examples:
  "lower ''linux'' = ''linux''" "lower ''windows'' = ''windows''" "lower ''Windows'' = ''windows''"
  by code_simp+

lemma py_int_examples:
  "py_int ''3000'' = Inr 3000" "py_int ''50000'' = Inr 50000" "py_int ''100'' = Inr 100"
  by (simp_all add: py_int_def strip_def py_isspace_def digit_val_def)

lemma strip_examples:
  "strip [] = []" "strip ''3000'' = ''3000''" "strip ''50000'' = ''50000''" "strip ''100'' = ''100''"
  "strip ''splunkd did not start'' = ''splunkd did not start''"
  by (simp_all add: strip_def py_isspace_def)

lemma bare_host_answers:
  "respond bare_host h installed_cmd = reply 0 [] []"
  "respond bare_host h ''uptime'' = reply 0 [] []"
  "respond bare_host h free_cmd = reply 0 ''3000'' []"
  "respond bare_host h df_cmd = reply 0 ''50000'' []"
  "respond bare_host h ''uname -s'' = reply 0 [] []"
  "respond bare_host h (downloaded_cmd ''uf.tgz'') = reply 0 [] []"
  "respond bare_host h (download_cmd ''uf.tgz'' example_url) = reply 0 [] []"
  by (simp_all add: bare_host_def answers_def installed_cmd_def free_cmd_def df_cmd_def
        downloaded_cmd_def download_cmd_def quoted_def example_url_def)

lemma bare_host_guards:
  "check_if_installed \<lparr>peer = bare_host, issued = [], close_calls = 0\<rparr> =
     (False, \<lparr>peer = bare_host, issued = [installed_cmd], close_calls = 0\<rparr>)"
  "check_system_resources example_config
       \<lparr>peer = bare_host, issued = [installed_cmd], close_calls = 0\<rparr> =
     ((True, ''resource check passed''),
      \<lparr>peer = bare_host, issued = [installed_cmd, ''uptime'', free_cmd, df_cmd],
        close_calls = 0\<rparr>)"
   apply (simp add: check_if_installed_eq bare_host_answers reply_def strip_examples)
  apply (simp add: check_system_resources_def check_system_resources_try_def run_stdout_eq
      bare_host_answers reply_def read_stripped_def except_false_def example_config_def
      get_default_def strip_examples py_int_examples)
  done

lemma bare_host_download:
  "download_splunk_package
       \<lparr>peer = bare_host, issued = [installed_cmd, ''uptime'', free_cmd, df_cmd], close_calls = 0\<rparr>
       example_url os =
     ((True, ''/tmp/uf.tgz''),
      \<lparr>peer = bare_host,
        issued = [installed_cmd, ''uptime'', free_cmd, df_cmd, ''uname -s'',
                  downloaded_cmd ''uf.tgz'', download_cmd ''uf.tgz'' example_url],
        close_calls = 0\<rparr>)"
  by (simp add: download_splunk_package_def download_splunk_package_try_def run_stdout_eq
      exec_command_def bare_host_answers reply_def read_stripped_def except_false_def
      strip_examples segment_example_url Let_def)

lemma connect_example:
  "connect_server (env_of pr) (example_server\<lparr>os_type := os\<rparr>) =
     Inr \<lparr>peer = pr, issued = [], close_calls = 0\<rparr>"
  by (simp add: fixture_defs)

lemma example_config_fields:
  "splunk_config example_config =
     Some \<lparr>download_url = Some example_url, deployment_server = Some ''ds:8089'',
           receiving_indexer = None\<rparr>"
  "force_reinstall example_config = None"
  "cleanup_after_install example_config = None"
  "resource_limits example_config = None"
  by (simp_all add: example_config_def)

text \<open>
  Claim C5. The fetch step is to reject a server whose os type is neither \<^verbatim>\<open>linux\<close> nor
  \<^verbatim>\<open>unix\<close> before any download. The code does not: \<^verbatim>\<open>download_splunk_package\<close> takes
  the os type and detects the operating system of the host, and then reads neither. On a
  server of os type \<^verbatim>\<open>windows\<close> whose host has no package in \<^verbatim>\<open>/tmp\<close>, the download
  command is issued and succeeds, and the unsupported-OS error comes from the install step
  afterwards.
\<close>

theorem download_issued_to_unsupported_os:
  "install_on_server (env_of bare_host) example_config (example_server\<lparr>os_type := Some ''windows''\<rparr>)
     = (Inr \<lparr>result_host = ''10.0.0.1'', success = False,
             message = ''install failed: unsupported operating system: windows'',
             timestamp = ''t0''\<rparr>,
        Some \<lparr>peer = bare_host,
              issued = [installed_cmd, ''uptime'', free_cmd, df_cmd, ''uname -s'',
                        downloaded_cmd ''uf.tgz'', download_cmd ''uf.tgz'' example_url],
              close_calls = 1\<rparr>)"
proof -
  let ?srv = "example_server\<lparr>os_type := Some ''windows''\<rparr>"
  let ?res = "\<lparr>result_host = host ?srv, success = False, message = [],
                 timestamp = clock_start (env_of bare_host)\<rparr>"
  let ?c3 = "\<lparr>peer = bare_host,
               issued = [installed_cmd, ''uptime'', free_cmd, df_cmd, ''uname -s'',
                         downloaded_cmd ''uf.tgz'', download_cmd ''uf.tgz'' example_url],
               close_calls = 0\<rparr>"
  have inst: "install_splunk ?c3 ''/tmp/uf.tgz'' ''windows''
                = ((False, ''unsupported operating system: windows''), ?c3)"
    by (simp add: install_splunk_def install_splunk_try_def except_false_def lower_examples)
  have w: "workflow example_config ?srv ?res \<lparr>peer = bare_host, issued = [], close_calls = 0\<rparr>
             = (Inr (?res\<lparr>message := ''install failed: unsupported operating system: windows''\<rparr>),
                ?c3)"
    by (simp add: workflow_def bare_host_guards bare_host_download inst get_default_def
          example_config_fields example_server_def)
  show ?thesis
    using install_on_server_connected [OF connect_example w]
    by (simp add: example_server_def env_of_def bare_host_def answers_def)
qed

subsection \<open>The resource check\<close>

lemma check_system_resources_fails:
  assumes "run_stdout c1 ''uptime'' = (ru, c2)"
    and "run_stdout c2 free_cmd = (rm, c3)"
    and "run_stdout c3 df_cmd = (rd, c4)"
    and "lim = get_default (resource_limits cfg) \<lparr>min_memory_mb = None, min_disk_mb = None\<rparr>"
    and "isl ru \<or> isl rm \<or> isl rd \<or> isl (py_int (projr rm)) \<or> isl (py_int (projr rd))
       \<or> projr (py_int (projr rm)) < get_default (min_memory_mb lim) 512
       \<or> projr (py_int (projr rd)) < get_default (min_disk_mb lim) 2048"
  shows "\<exists>msg c'. check_system_resources cfg c1 = ((False, msg), c') \<and> c' \<in> {c2, c3, c4}"
proof (cases ru)
  case (Inl e)
  then show ?thesis
    using assms(1) by (simp add: check_system_resources_def check_system_resources_try_def
        except_false_def)
next
  case u: (Inr u)
  show ?thesis
  proof (cases rm)
    case (Inl e)
    then show ?thesis
      using assms(1,2) u by (simp add: check_system_resources_def check_system_resources_try_def
          except_false_def)
  next
    case m: (Inr m)
    show ?thesis
    proof (cases "py_int m")
      case (Inl e)
      then show ?thesis
        using assms(1,2) u m by (simp add: check_system_resources_def
            check_system_resources_try_def except_false_def)
    next
      case am: (Inr am)
      show ?thesis
      proof (cases rd)
        case (Inl e)
        then show ?thesis
          using assms(1-3) u m am by (simp add: check_system_resources_def
              check_system_resources_try_def except_false_def)
      next
        case d: (Inr d)
        show ?thesis
        proof (cases "py_int d")
          case (Inl e)
          then show ?thesis
            using assms(1-3) u m am d by (simp add: check_system_resources_def
                check_system_resources_try_def except_false_def)
        next
          case ad: (Inr ad)
          from assms(5) u m am d ad
          have low: "am < get_default (min_memory_mb lim) 512
                   \<or> ad < get_default (min_disk_mb lim) 2048"
            by simp
          then show ?thesis
            using assms(1-3) u m am d ad assms(4) [symmetric]
            by (auto simp: check_system_resources_def check_system_resources_try_def
                except_false_def Let_def)
        qed
      qed
    qed
  qed
qed

lemma workflow_resource_failure:
  assumes "check_if_installed c = (inst, c1)"
    and "\<not> (inst \<and> \<not> get_default (force_reinstall cfg) False)"
    and "check_system_resources cfg c1 = ((False, msg), c')"
  shows "workflow cfg srv res c =
     (Inr (res\<lparr>message := ''resource check failed: '' @ msg\<rparr>), c')"
proof -
  from assms(2) have ns: "(inst \<and> \<not> get_default (force_reinstall cfg) False) = False"
    by simp
  show ?thesis
    by (simp add: workflow_def assms(1,3) ns)
qed

text \<open>
  Claim C2. On a connected server whose workflow reaches the resource check (the host is
  not skipped as already installed): when one of the three reads fails (the command or the
  reading of its output raises), or the memory or disk figure does not parse as an integer,
  or the available memory or disk is below its threshold (defaults 512 and 2048 MB), the
  workflow ends with an unsuccessful result whose message starts with the resource-check
  label, and the commands that the host has received are an initial part of the presence
  test followed by the three reads: no fetch, install or configuration command.
\<close>

theorem resource_check_fails_closed:
  assumes "connect_server env srv = Inr c"
    and "check_if_installed c = (inst, c1)"
    and "\<not> (inst \<and> \<not> get_default (force_reinstall cfg) False)"
    and "run_stdout c1 ''uptime'' = (ru, c2)"
    and "run_stdout c2 free_cmd = (rm, c3)"
    and "run_stdout c3 df_cmd = (rd, c4)"
    and "lim = get_default (resource_limits cfg) \<lparr>min_memory_mb = None, min_disk_mb = None\<rparr>"
    and "isl ru \<or> isl rm \<or> isl rd \<or> isl (py_int (projr rm)) \<or> isl (py_int (projr rd))
       \<or> projr (py_int (projr rm)) < get_default (min_memory_mb lim) 512
       \<or> projr (py_int (projr rd)) < get_default (min_disk_mb lim) 2048"
  shows "\<exists>msg c'. install_on_server env cfg srv =
            ((case close_raises (peer c) of
                Some e \<Rightarrow> Inl e
              | None \<Rightarrow> Inr \<lparr>result_host = host srv, success = False,
                              message = ''resource check failed: '' @ msg,
                              timestamp = clock_start env\<rparr>),
             Some c')
          \<and> prefix (issued c') [installed_cmd, ''uptime'', free_cmd, df_cmd]
          \<and> close_calls c' = 1"
proof -
  define res where "res = \<lparr>result_host = host srv, success = False, message = [],
           timestamp = clock_start env\<rparr>"
  have fresh: "issued c = []" "close_calls c = 0"
    using connect_server_fresh [OF assms(1)] by simp_all
  have c1: "c1 = c\<lparr>issued := [installed_cmd]\<rparr>"
    using assms(2) fresh by (simp add: check_if_installed_eq)
  have c2: "c2 = c\<lparr>issued := [installed_cmd, ''uptime'']\<rparr>"
    using assms(4) by (simp add: run_stdout_eq c1)
  have c3: "c3 = c\<lparr>issued := [installed_cmd, ''uptime'', free_cmd]\<rparr>"
    using assms(5) by (simp add: run_stdout_eq c2)
  have c4: "c4 = c\<lparr>issued := [installed_cmd, ''uptime'', free_cmd, df_cmd]\<rparr>"
    using assms(6) by (simp add: run_stdout_eq c3)
  obtain msg c' where chk: "check_system_resources cfg c1 = ((False, msg), c')"
      and c': "c' \<in> {c2, c3, c4}"
    using check_system_resources_fails [OF assms(4-8)] by blast
  have w: "workflow cfg srv res c =
      (Inr (res\<lparr>message := ''resource check failed: '' @ msg\<rparr>), c')"
    by (rule workflow_resource_failure [OF assms(2,3) chk])
  have same: "peer c' = peer c" "close_calls c' = 0"
      and pre: "prefix (issued c') [installed_cmd, ''uptime'', free_cmd, df_cmd]"
    using c' fresh by (auto simp: c2 c3 c4)
  show ?thesis
    using install_on_server_connected [OF assms(1) w [unfolded res_def]] same pre
    by (auto simp: res_def split: option.splits)
qed

lemma low_memory_host_answers:
  "respond low_memory_host h installed_cmd = reply 0 [] []"
  "respond low_memory_host h ''uptime'' = reply 0 [] []"
  "respond low_memory_host h free_cmd = reply 0 ''100'' []"
  "respond low_memory_host h df_cmd = reply 0 ''50000'' []"
  by (simp_all add: low_memory_host_def answers_def installed_cmd_def free_cmd_def df_cmd_def
        quoted_def)

theorem resource_check_fails_closed_witness:
  "\<exists>msg c'. install_on_server (env_of low_memory_host) example_config example_server =
            (Inr \<lparr>result_host = ''10.0.0.1'', success = False,
                   message = ''resource check failed: '' @ msg, timestamp = ''t0''\<rparr>,
             Some c')
          \<and> prefix (issued c') [installed_cmd, ''uptime'', free_cmd, df_cmd]
          \<and> close_calls c' = 1"
proof -
  let ?c = "\<lparr>peer = low_memory_host, issued = [], close_calls = 0\<rparr>"
  let ?c1 = "\<lparr>peer = low_memory_host, issued = [installed_cmd], close_calls = 0\<rparr>"
  let ?c2 = "\<lparr>peer = low_memory_host, issued = [installed_cmd, ''uptime''], close_calls = 0\<rparr>"
  let ?c3 = "\<lparr>peer = low_memory_host, issued = [installed_cmd, ''uptime'', free_cmd],
              close_calls = 0\<rparr>"
  let ?c4 = "\<lparr>peer = low_memory_host, issued = [installed_cmd, ''uptime'', free_cmd, df_cmd],
              close_calls = 0\<rparr>"
  have h1: "connect_server (env_of low_memory_host) example_server = Inr ?c"
    using connect_example [of low_memory_host "os_type example_server"] by simp
  have h2: "check_if_installed ?c = (False, ?c1)"
    by (simp add: check_if_installed_eq low_memory_host_answers reply_def strip_examples)
  have h3: "\<not> (False \<and> \<not> get_default (force_reinstall example_config) False)"
    by simp
  have h4: "run_stdout ?c1 ''uptime'' = (Inr [], ?c2)"
    by (simp add: run_stdout_eq low_memory_host_answers reply_def read_stripped_def strip_examples)
  have h5: "run_stdout ?c2 free_cmd = (Inr ''100'', ?c3)"
    by (simp add: run_stdout_eq low_memory_host_answers reply_def read_stripped_def strip_examples)
  have h6: "run_stdout ?c3 df_cmd = (Inr ''50000'', ?c4)"
    by (simp add: run_stdout_eq low_memory_host_answers reply_def read_stripped_def strip_examples)
  have h7: "\<lparr>min_memory_mb = None, min_disk_mb = None\<rparr> =
      get_default (resource_limits example_config) \<lparr>min_memory_mb = None, min_disk_mb = None\<rparr>"
    by (simp add: example_config_fields get_default_def)
  have h8: "isl (Inr [] :: exn + string) \<or> isl (Inr ''100'' :: exn + string)
       \<or> isl (Inr ''50000'' :: exn + string)
       \<or> isl (py_int (projr (Inr ''100'' :: exn + string)))
       \<or> isl (py_int (projr (Inr ''50000'' :: exn + string)))
       \<or> projr (py_int (projr (Inr ''100'' :: exn + string)))
            < get_default (min_memory_mb \<lparr>min_memory_mb = None, min_disk_mb = None\<rparr>) 512
       \<or> projr (py_int (projr (Inr ''50000'' :: exn + string)))
            < get_default (min_disk_mb \<lparr>min_memory_mb = None, min_disk_mb = None\<rparr>) 2048"
    by (simp add: py_int_examples get_default_def)
  show ?thesis
    using resource_check_fails_closed [OF h1 h2 h3 h4 h5 h6 h7 h8]
    by (simp add: low_memory_host_def answers_def example_server_def env_of_def)
qed

subsection \<open>The configuration sequence\<close>

lemma run_status_ok:
  "\<not> isl (respond (peer c) (issued c) cmd) \<Longrightarrow>
   run_status c cmd = (Inr (), c\<lparr>issued := issued c @ [cmd]\<rparr>)"
  by (cases "respond (peer c) (issued c) cmd") (simp_all add: run_status_eq)

lemma configure_splunk_try_run:
  fixes cfg c
  defines "cmds \<equiv> configure_commands cfg"
  assumes inter: "\<forall>k < length cmds - 1.
             \<not> isl (respond (peer c) (issued c @ take k cmds) (cmds ! k))"
    and start: "respond (peer c) (issued c @ butlast cmds) (splunk_bin @ '' start'') = Inr ch"
  shows "configure_splunk_try cfg c =
     ((if recv_exit_status ch \<noteq> 0
       then (case read_stripped (stderr_read ch) of
               Inl e \<Rightarrow> Inl e
             | Inr error_msg \<Rightarrow> Inr (False, ''start failed: '' @ error_msg))
       else Inr (True, ''configuration succeeded'')),
      c\<lparr>issued := issued c @ cmds\<rparr>)"
proof -
  define sc where "sc = get_default (splunk_config cfg)
       \<lparr>download_url = None, deployment_server = None, receiving_indexer = None\<rparr>"
  define ds where "ds = get_default (deployment_server sc) []"
  define ri where "ri = get_default (receiving_indexer sc) []"
  define a where "a = splunk_bin @ '' start --accept-license --answer-yes --no-prompt''"
  define b where "b = splunk_bin @ '' stop''"
  define d where "d = splunk_bin @ '' set deploy-poll '' @ ds @ '' -auth admin:changeme''"
  define f where "f = splunk_bin @ '' add forward-server '' @ ri @ '' -auth admin:changeme''"
  define g where "g = splunk_bin @ '' enable boot-start''"
  define s where "s = splunk_bin @ '' start''"
  have cmds: "cmds = [a, b] @ (if ds \<noteq> [] then [d] else []) @ (if ri \<noteq> [] then [f] else [])
                 @ [g, s]"
    by (simp add: cmds_def configure_commands_def sc_def ds_def ri_def a_def b_def d_def f_def
        g_def s_def Let_def)
  have body: "configure_splunk_try cfg c =
      then_do (run_status c a) (\<lambda>_ c1.
      then_do (run_status c1 b) (\<lambda>_ c2.
      then_do (if ds \<noteq> [] then run_status c2 d else (Inr (), c2)) (\<lambda>_ c3.
      then_do (if ri \<noteq> [] then run_status c3 f else (Inr (), c3)) (\<lambda>_ c4.
      then_do (run_status c4 g) (\<lambda>_ c5.
      then_do (exec_command c5 s) (\<lambda>ch c6.
        if recv_exit_status ch \<noteq> 0
        then then_do (read_stripped (stderr_read ch), c6) (\<lambda>error_msg c6.
               (Inr (False, ''start failed: '' @ error_msg), c6))
        else (Inr (True, ''configuration succeeded''), c6)))))))"
    unfolding configure_splunk_try_def Let_def ds_def ri_def sc_def a_def b_def d_def f_def
      g_def s_def
    by (rule refl)
  have fin: "(if recv_exit_status ch \<noteq> 0
        then then_do (read_stripped (stderr_read ch), c') (\<lambda>error_msg c6.
               (Inr (False, ''start failed: '' @ error_msg), c6))
        else (Inr (True, ''configuration succeeded''), c')) =
      ((if recv_exit_status ch \<noteq> 0
       then (case read_stripped (stderr_read ch) of
               Inl e \<Rightarrow> Inl e
             | Inr error_msg \<Rightarrow> Inr (False, ''start failed: '' @ error_msg))
       else Inr (True, ''configuration succeeded'')), c')" for c'
    by (cases "read_stripped (stderr_read ch)") simp_all
  have k0: "\<not> isl (respond (peer c) (issued c) a)"
    using inter [rule_format, of 0] by (simp add: cmds)
  have k1: "\<not> isl (respond (peer c) (issued c @ [a]) b)"
    using inter [rule_format, of 1] by (simp add: cmds)
  show ?thesis
  proof (cases "ds \<noteq> []")
    case dsT: True
    have k2: "\<not> isl (respond (peer c) (issued c @ [a, b]) d)"
      using inter [rule_format, of 2] dsT by (simp add: cmds)
    show ?thesis
    proof (cases "ri \<noteq> []")
      case riT: True
      have k3: "\<not> isl (respond (peer c) (issued c @ [a, b, d]) f)"
        using inter [rule_format, of 3] dsT riT by (simp add: cmds)
      have k4: "\<not> isl (respond (peer c) (issued c @ [a, b, d, f]) g)"
        using inter [rule_format, of 4] dsT riT by (simp add: cmds)
      have st: "respond (peer c) (issued c @ [a, b, d, f, g]) s = Inr ch"
        using start dsT riT by (simp add: cmds s_def)
      show ?thesis
        using dsT riT
        by (simp add: body run_status_ok k0 k1 k2 k3 k4 exec_command_def st fin cmds)
    next
      case riF: False
      have k4: "\<not> isl (respond (peer c) (issued c @ [a, b, d]) g)"
        using inter [rule_format, of 3] dsT riF by (simp add: cmds)
      have st: "respond (peer c) (issued c @ [a, b, d, g]) s = Inr ch"
        using start dsT riF by (simp add: cmds s_def)
      show ?thesis
        using dsT riF
        by (simp add: body run_status_ok k0 k1 k2 k4 exec_command_def st fin cmds)
    qed
  next
    case dsF: False
    show ?thesis
    proof (cases "ri \<noteq> []")
      case riT: True
      have k3: "\<not> isl (respond (peer c) (issued c @ [a, b]) f)"
        using inter [rule_format, of 2] dsF riT by (simp add: cmds)
      have k4: "\<not> isl (respond (peer c) (issued c @ [a, b, f]) g)"
        using inter [rule_format, of 3] dsF riT by (simp add: cmds)
      have st: "respond (peer c) (issued c @ [a, b, f, g]) s = Inr ch"
        using start dsF riT by (simp add: cmds s_def)
      show ?thesis
        using dsF riT
        by (simp add: body run_status_ok k0 k1 k3 k4 exec_command_def st fin cmds)
    next
      case riF: False
      have k4: "\<not> isl (respond (peer c) (issued c @ [a, b]) g)"
        using inter [rule_format, of 2] dsF riF by (simp add: cmds)
      have st: "respond (peer c) (issued c @ [a, b, g]) s = Inr ch"
        using start dsF riF by (simp add: cmds s_def)
      show ?thesis
        using dsF riF
        by (simp add: body run_status_ok k0 k1 k4 exec_command_def st fin cmds)
    qed
  qed
qed

lemma workflow_configure_failure:
  assumes "check_if_installed c = (inst, c1)"
    and "\<not> (inst \<and> \<not> get_default (force_reinstall cfg) False)"
    and "check_system_resources cfg c1 = ((True, rmsg), c2)"
    and "splunk_config cfg = Some sc"
    and "download_url sc = Some url"
    and "download_splunk_package c2 url (get_default (os_type srv) ''linux'') = ((True, path), c3)"
    and "install_splunk c3 path (get_default (os_type srv) ''linux'') = ((True, imsg), c4)"
    and "configure_splunk cfg c4 = ((False, cmsg), c5)"
  shows "workflow cfg srv res c =
     (Inr (res\<lparr>message := ''configuration failed: '' @ cmsg\<rparr>), c5)"
proof -
  from assms(2) have ns: "(inst \<and> \<not> get_default (force_reinstall cfg) False) = False"
    by simp
  show ?thesis
    by (simp add: workflow_def assms(1,3-8) ns)
qed

text \<open>
  Claim C6. On a connected server whose workflow passes the guards, the fetch and the
  install stage, let the commands of the configuration sequence before the final start be
  accepted by the host (\<^verbatim>\<open>exec_command\<close> does not raise; their exit statuses are arbitrary
  and read by nobody), and let the final \<^verbatim>\<open>splunk start\<close> exit with a status other than 0
  and a readable error stream. Then the result is unsuccessful, its message is the
  configuration-stage label followed by the start-failure label and the stripped error
  stream, and the session ends with the configuration commands: the start command is the
  last command the host receives, so the removal of the package is never issued.
\<close>

theorem start_failure_fails_configuration:
  assumes "connect_server env srv = Inr c"
    and "check_if_installed c = (inst, c1)"
    and "\<not> (inst \<and> \<not> get_default (force_reinstall cfg) False)"
    and "check_system_resources cfg c1 = ((True, rmsg), c2)"
    and "splunk_config cfg = Some sc"
    and "download_url sc = Some url"
    and "download_splunk_package c2 url (get_default (os_type srv) ''linux'') = ((True, path), c3)"
    and "install_splunk c3 path (get_default (os_type srv) ''linux'') = ((True, imsg), c4)"
    and "\<forall>k < length (configure_commands cfg) - 1.
           \<not> isl (respond (peer c) (issued c4 @ take k (configure_commands cfg))
                    (configure_commands cfg ! k))"
    and "respond (peer c) (issued c4 @ butlast (configure_commands cfg)) (splunk_bin @ '' start'')
           = Inr ch"
    and "recv_exit_status ch \<noteq> 0"
    and "stderr_read ch = Inr err"
  shows "install_on_server env cfg srv =
     ((case close_raises (peer c) of
         Some e \<Rightarrow> Inl e
       | None \<Rightarrow> Inr \<lparr>result_host = host srv, success = False,
                       message = ''configuration failed: start failed: '' @ strip err,
                       timestamp = clock_start env\<rparr>),
      Some (c4\<lparr>issued := issued c4 @ configure_commands cfg, close_calls := 1\<rparr>))"
proof -
  define res where "res = \<lparr>result_host = host srv, success = False, message = [],
           timestamp = clock_start env\<rparr>"
  define os where "os = get_default (os_type srv) ''linux''"
  have k1: "continues c c1"
    using continues_check_if_installed [OF continues_refl, of c] assms(2) by simp
  have k2: "continues c c2"
    using continues_check_system_resources [OF k1, of cfg] assms(4) by simp
  have k3: "continues c c3"
    using continues_download [OF k2, of url os] assms(7) by (simp add: os_def)
  have k4: "continues c c4"
    using continues_install [OF k3, of path os] assms(8) by (simp add: os_def)
  have same: "peer c4 = peer c" "close_calls c4 = 0"
    using k4 connect_server_fresh [OF assms(1)] by (simp_all add: continues_def)
  have conf: "configure_splunk cfg c4 =
      ((False, ''start failed: '' @ strip err),
       c4\<lparr>issued := issued c4 @ configure_commands cfg\<rparr>)"
    using configure_splunk_try_run [of cfg c4 ch] assms(9-12) same
    by (simp add: configure_splunk_def except_false_def read_stripped_def)
  have w: "workflow cfg srv res c =
      (Inr (res\<lparr>message := ''configuration failed: '' @ ''start failed: '' @ strip err\<rparr>),
       c4\<lparr>issued := issued c4 @ configure_commands cfg\<rparr>)"
    by (rule workflow_configure_failure [OF assms(2-8) conf])
  show ?thesis
    using install_on_server_connected [OF assms(1) w [unfolded res_def]] same
    by (simp split: option.splits)
qed

lemma failing_start_host_answers:
  "respond failing_start_host h installed_cmd = reply 0 [] []"
  "respond failing_start_host h ''uptime'' = reply 0 [] []"
  "respond failing_start_host h free_cmd = reply 0 ''3000'' []"
  "respond failing_start_host h df_cmd = reply 0 ''50000'' []"
  "respond failing_start_host h ''uname -s'' = reply 0 [] []"
  "respond failing_start_host h (downloaded_cmd ''uf.tgz'') = reply 0 [] []"
  "respond failing_start_host h (download_cmd ''uf.tgz'' example_url) = reply 0 [] []"
  "respond failing_start_host h ''cd /opt && tar xzf /tmp/uf.tgz'' = reply 0 [] []"
  "respond failing_start_host h (splunk_bin @ '' start'') = reply 1 [] ''splunkd did not start''"
  by (simp_all add: failing_start_host_def answers_def installed_cmd_def free_cmd_def df_cmd_def
        downloaded_cmd_def download_cmd_def quoted_def example_url_def splunk_bin_def)

lemma failing_start_host_accepts: "\<not> isl (respond failing_start_host h cmd)"
  by (simp add: failing_start_host_def answers_def reply_def)

lemma configure_commands_example:
  "configure_commands example_config =
     [splunk_bin @ '' start --accept-license --answer-yes --no-prompt'',
      splunk_bin @ '' stop'',
      splunk_bin @ '' set deploy-poll ds:8089 -auth admin:changeme'',
      splunk_bin @ '' enable boot-start'',
      splunk_bin @ '' start'']"
  by (simp add: configure_commands_def example_config_fields get_default_def)

theorem start_failure_fails_configuration_witness:
  "install_on_server (env_of failing_start_host) example_config example_server =
     (Inr \<lparr>result_host = ''10.0.0.1'', success = False,
           message = ''configuration failed: start failed: splunkd did not start'',
           timestamp = ''t0''\<rparr>,
      Some \<lparr>peer = failing_start_host,
            issued = [installed_cmd, ''uptime'', free_cmd, df_cmd, ''uname -s'',
                      downloaded_cmd ''uf.tgz'', download_cmd ''uf.tgz'' example_url,
                      ''cd /opt && tar xzf /tmp/uf.tgz'']
                     @ configure_commands example_config,
            close_calls = 1\<rparr>)"
proof -
  let ?pr = failing_start_host
  let ?c = "\<lparr>peer = ?pr, issued = [], close_calls = 0\<rparr>"
  let ?c1 = "\<lparr>peer = ?pr, issued = [installed_cmd], close_calls = 0\<rparr>"
  let ?c2 = "\<lparr>peer = ?pr, issued = [installed_cmd, ''uptime'', free_cmd, df_cmd],
              close_calls = 0\<rparr>"
  let ?c3 = "\<lparr>peer = ?pr,
              issued = [installed_cmd, ''uptime'', free_cmd, df_cmd, ''uname -s'',
                        downloaded_cmd ''uf.tgz'', download_cmd ''uf.tgz'' example_url],
              close_calls = 0\<rparr>"
  let ?c4 = "\<lparr>peer = ?pr,
              issued = [installed_cmd, ''uptime'', free_cmd, df_cmd, ''uname -s'',
                        downloaded_cmd ''uf.tgz'', download_cmd ''uf.tgz'' example_url,
                        ''cd /opt && tar xzf /tmp/uf.tgz''],
              close_calls = 0\<rparr>"
  let ?ch = "\<lparr>recv_exit_status = 1, stdout_read = Inr [],
              stderr_read = Inr ''splunkd did not start''\<rparr>"
  have os: "get_default (os_type example_server) ''linux'' = ''linux''"
    by (simp add: example_server_def get_default_def)
  have h1: "connect_server (env_of ?pr) example_server = Inr ?c"
    using connect_example [of ?pr "os_type example_server"] by simp
  have h2: "check_if_installed ?c = (False, ?c1)"
    by (simp add: check_if_installed_eq failing_start_host_answers reply_def strip_examples)
  have h3: "\<not> (False \<and> \<not> get_default (force_reinstall example_config) False)"
    by simp
  have h4: "check_system_resources example_config ?c1 = ((True, ''resource check passed''), ?c2)"
    by (simp add: check_system_resources_def check_system_resources_try_def run_stdout_eq
      failing_start_host_answers reply_def read_stripped_def except_false_def
      example_config_fields get_default_def strip_examples py_int_examples)
  have h5: "splunk_config example_config =
     Some \<lparr>download_url = Some example_url, deployment_server = Some ''ds:8089'',
           receiving_indexer = None\<rparr>"
    by (rule example_config_fields)
  have h6: "download_url \<lparr>download_url = Some example_url, deployment_server = Some ''ds:8089'',
           receiving_indexer = None\<rparr> = Some example_url"
    by simp
  have h7: "download_splunk_package ?c2 example_url (get_default (os_type example_server) ''linux'')
              = ((True, ''/tmp/uf.tgz''), ?c3)"
    by (simp add: os download_splunk_package_def download_splunk_package_try_def run_stdout_eq
      exec_command_def failing_start_host_answers reply_def read_stripped_def except_false_def
      strip_examples segment_example_url Let_def)
  have h8: "install_splunk ?c3 ''/tmp/uf.tgz'' (get_default (os_type example_server) ''linux'')
              = ((True, ''install succeeded''), ?c4)"
    by (simp add: os install_splunk_def install_splunk_try_def run_install_def exec_command_def
      failing_start_host_answers reply_def except_false_def lower_examples endswith_def)
  have h9: "\<forall>k < length (configure_commands example_config) - 1.
           \<not> isl (respond (peer ?c) (issued ?c4 @ take k (configure_commands example_config))
                    (configure_commands example_config ! k))"
    by (simp add: failing_start_host_accepts)
  have h10: "respond (peer ?c) (issued ?c4 @ butlast (configure_commands example_config))
               (splunk_bin @ '' start'') = Inr ?ch"
    by (simp add: failing_start_host_answers reply_def)
  have h11: "recv_exit_status ?ch \<noteq> 0"
    by simp
  have h12: "stderr_read ?ch = Inr ''splunkd did not start''"
    by simp
  show ?thesis
    using start_failure_fails_configuration [OF h1 h2 h3 h4 h5 h6 h7 h8 h9 h10 h11 h12]
    by (simp add: strip_examples failing_start_host_def answers_def example_server_def env_of_def)
qed

subsection \<open>The guard on an existing installation: skip or reinstall\<close>

lemma workflow_steps:
  assumes "check_if_installed c = (inst, c1)"
    and "\<not> (inst \<and> \<not> get_default (force_reinstall cfg) False)"
  shows "workflow cfg srv res c = install_steps cfg srv res c1"
proof -
  from assms(2) have ns: "(inst \<and> \<not> get_default (force_reinstall cfg) False) = False"
    by simp
  show ?thesis
    unfolding workflow_def install_steps_def by (simp add: assms(1) ns)
qed

lemma install_steps_message:
  assumes "install_steps cfg srv res c1 = (Inr r, c')"
  shows "message r \<noteq> ''Splunk UF already installed, skipping''"
proof -
  obtain ok rm c2 where 2: "check_system_resources cfg c1 = ((ok, rm), c2)"
    by (cases "check_system_resources cfg c1") auto
  show ?thesis
  proof (cases "ok \<and> splunk_config cfg \<noteq> None
                 \<and> download_url (the (splunk_config cfg)) \<noteq> None")
    case False
    with assms show ?thesis
      by (auto simp: install_steps_def 2 split: option.splits if_splits)
  next
    case True
    then obtain sc url where sc: "splunk_config cfg = Some sc" "download_url sc = Some url" ok
      by auto
    define os where "os = get_default (os_type srv) ''linux''"
    obtain dok path c3 where 3: "download_splunk_package c2 url os = ((dok, path), c3)"
      by (cases "download_splunk_package c2 url os") auto
    obtain iok im c4 where 4: "install_splunk c3 path os = ((iok, im), c4)"
      by (cases "install_splunk c3 path os") auto
    obtain cok cm c5 where 5: "configure_splunk cfg c4 = ((cok, cm), c5)"
      by (cases "configure_splunk cfg c4") auto
    from assms sc show ?thesis
      by (auto simp: install_steps_def 2 3 4 5 os_def [symmetric] split: if_splits)
  qed
qed

text \<open>
  Claim C3. On a connected server whose presence test \<^verbatim>\<open>test -d /opt/splunkforwarder\<close>
  answers \<^verbatim>\<open>exists\<close>: without \<^verbatim>\<open>force_reinstall\<close> the workflow ends at once with a
  successful result that says the forwarder was skipped, and the presence test is the only
  command the host ever receives (no fetch, install or configuration command). With
  \<^verbatim>\<open>force_reinstall\<close> the answer of the presence test is not used: the outcome of the
  workflow is the outcome of steps 3 to 7 run on the session after the presence test, the
  resource check's first command \<^verbatim>\<open>uptime\<close> follows the presence test, and whatever result
  comes back, its message is not the skip message.
\<close>

theorem installed_host_is_skipped_unless_forced:
  assumes "connect_server env srv = Inr c"
    and "respond (peer c) [] installed_cmd = Inr ch"
    and "stdout_read ch = Inr out"
    and "strip out = ''exists''"
    and "res = \<lparr>result_host = host srv, success = False, message = [],
                 timestamp = clock_start env\<rparr>"
  shows "if get_default (force_reinstall cfg) False
         then (\<exists>r c'. install_steps cfg srv res (c\<lparr>issued := [installed_cmd]\<rparr>) = (r, c')
                 \<and> install_on_server env cfg srv =
                      ((case close_raises (peer c) of
                          Some e \<Rightarrow> Inl e
                        | None \<Rightarrow> Inr (case r of
                                         Inl e \<Rightarrow> res\<lparr>message := ''exception: '' @ e\<rparr>
                                       | Inr res' \<Rightarrow> res')),
                       Some (c'\<lparr>close_calls := 1\<rparr>))
                 \<and> prefix [installed_cmd, ''uptime''] (issued c'))
              \<and> (\<forall>res'. fst (install_on_server env cfg srv) = Inr res' \<longrightarrow>
                     message res' \<noteq> ''Splunk UF already installed, skipping'')
         else install_on_server env cfg srv =
                ((case close_raises (peer c) of
                    Some e \<Rightarrow> Inl e
                  | None \<Rightarrow> Inr \<lparr>result_host = host srv, success = True,
                                  message = ''Splunk UF already installed, skipping'',
                                  timestamp = clock_start env\<rparr>),
                 Some (c\<lparr>issued := [installed_cmd], close_calls := 1\<rparr>))"
proof -
  define c1 where "c1 = c\<lparr>issued := [installed_cmd]\<rparr>"
  have fresh: "issued c = []" "close_calls c = 0"
    using connect_server_fresh [OF assms(1)] by simp_all
  have chk: "check_if_installed c = (True, c1)"
    using assms(2-4) fresh by (simp add: check_if_installed_eq c1_def)
  show ?thesis
  proof (cases "get_default (force_reinstall cfg) False")
    case False
    have w: "workflow cfg srv res c = (Inr (res\<lparr>success := True,
                 message := ''Splunk UF already installed, skipping''\<rparr>), c1)"
      using workflow_skipped [OF chk False] .
    show ?thesis
      using install_on_server_connected [OF assms(1) w [unfolded assms(5)]] False fresh
      by (simp add: c1_def split: option.splits)
  next
    case True
    obtain r c2 where s: "install_steps cfg srv res c1 = (r, c2)"
      by (cases "install_steps cfg srv res c1") auto
    have w: "workflow cfg srv res c = (r, c2)"
      using workflow_steps [OF chk, of cfg srv res] True s by simp
    have k: "continues c c2"
      using continues_workflow [OF continues_refl, of c cfg srv res] w by simp
    have same: "peer c2 = peer c" "close_calls c2 = 0"
      using k fresh by (simp_all add: continues_def)
    have "continues (snd (check_system_resources cfg c1)) c2"
      using workflow_not_skipped [OF chk, of cfg srv res] True w by simp
    with check_system_resources_starts [of c1 cfg]
    have "continues (c1\<lparr>issued := issued c1 @ [''uptime'']\<rparr>) c2"
      by (rule continues_trans)
    then have pre: "prefix [installed_cmd, ''uptime''] (issued c2)"
      by (simp add: continues_def c1_def)
    have run: "install_on_server env cfg srv =
        ((case close_raises (peer c) of
            Some e \<Rightarrow> Inl e
          | None \<Rightarrow> Inr (case r of
                           Inl e \<Rightarrow> res\<lparr>message := ''exception: '' @ e\<rparr>
                         | Inr res' \<Rightarrow> res')),
         Some (c2\<lparr>close_calls := 1\<rparr>))"
      unfolding assms(5)
      using install_on_server_connected [OF assms(1) w [unfolded assms(5)]] same
      by (simp split: option.splits sum.splits)
    have msg: "message res' \<noteq> ''Splunk UF already installed, skipping''"
      if "fst (install_on_server env cfg srv) = Inr res'" for res'
    proof (cases r)
      case (Inl e)
      with that run show ?thesis
        by (auto simp: assms(5) split: option.splits)
    next
      case (Inr r')
      have "message r' \<noteq> ''Splunk UF already installed, skipping''"
        using install_steps_message [OF s [unfolded Inr]] .
      with that run Inr show ?thesis
        by (auto split: option.splits)
    qed
    show ?thesis
      using True s run pre msg by (auto simp: c1_def)
  qed
qed

lemma provisioned_host_answers:
  "respond provisioned_host h installed_cmd = reply 0 ''exists'' []"
  "respond provisioned_host h ''uptime'' = reply 0 [] []"
  "respond provisioned_host h free_cmd = reply 0 ''3000'' []"
  "respond provisioned_host h df_cmd = reply 0 ''50000'' []"
  "respond provisioned_host h ''uname -s'' = reply 0 [] []"
  "respond provisioned_host h (downloaded_cmd ''uf.tgz'') = reply 0 [] []"
  "respond provisioned_host h (download_cmd ''uf.tgz'' example_url) = reply 0 [] []"
  "respond provisioned_host h ''cd /opt && tar xzf /tmp/uf.tgz'' = reply 0 [] []"
  "respond provisioned_host h (splunk_bin @ '' start'') = reply 0 [] []"
  by (simp_all add: provisioned_host_def answers_def installed_cmd_def free_cmd_def df_cmd_def
        downloaded_cmd_def download_cmd_def quoted_def example_url_def splunk_bin_def)

lemma provisioned_host_accepts: "\<not> isl (respond provisioned_host h cmd)"
  by (simp add: provisioned_host_def answers_def reply_def)

lemma forced_config_fields:
  "splunk_config (example_config\<lparr>force_reinstall := Some True\<rparr>) =
     Some \<lparr>download_url = Some example_url, deployment_server = Some ''ds:8089'',
           receiving_indexer = None\<rparr>"
  "force_reinstall (example_config\<lparr>force_reinstall := Some True\<rparr>) = Some True"
  "cleanup_after_install (example_config\<lparr>force_reinstall := Some True\<rparr>) = None"
  "resource_limits (example_config\<lparr>force_reinstall := Some True\<rparr>) = None"
  by (simp_all add: example_config_def)

lemma configure_commands_forced:
  "configure_commands (example_config\<lparr>force_reinstall := Some True\<rparr>) =
     [splunk_bin @ '' start --accept-license --answer-yes --no-prompt'',
      splunk_bin @ '' stop'',
      splunk_bin @ '' set deploy-poll ds:8089 -auth admin:changeme'',
      splunk_bin @ '' enable boot-start'',
      splunk_bin @ '' start'']"
  by (simp add: configure_commands_def forced_config_fields get_default_def)

lemma provisioned_host_forced_steps:
  "install_steps (example_config\<lparr>force_reinstall := Some True\<rparr>) example_server
       \<lparr>result_host = ''10.0.0.1'', success = False, message = [], timestamp = ''t0''\<rparr>
       \<lparr>peer = provisioned_host, issued = [installed_cmd], close_calls = 0\<rparr> =
     (Inr \<lparr>result_host = ''10.0.0.1'', success = True,
            message = ''installed and configured successfully'', timestamp = ''t0''\<rparr>,
      \<lparr>peer = provisioned_host,
        issued = [installed_cmd, ''uptime'', free_cmd, df_cmd, ''uname -s'',
                  downloaded_cmd ''uf.tgz'', download_cmd ''uf.tgz'' example_url,
                  ''cd /opt && tar xzf /tmp/uf.tgz'']
                 @ configure_commands (example_config\<lparr>force_reinstall := Some True\<rparr>)
                 @ [''rm -f /tmp/uf.tgz''],
        close_calls = 0\<rparr>)"
proof -
  let ?cfg = "example_config\<lparr>force_reinstall := Some True\<rparr>"
  let ?pr = provisioned_host
  let ?c1 = "\<lparr>peer = ?pr, issued = [installed_cmd], close_calls = 0\<rparr>"
  let ?c2 = "\<lparr>peer = ?pr, issued = [installed_cmd, ''uptime'', free_cmd, df_cmd],
              close_calls = 0\<rparr>"
  let ?c3 = "\<lparr>peer = ?pr,
              issued = [installed_cmd, ''uptime'', free_cmd, df_cmd, ''uname -s'',
                        downloaded_cmd ''uf.tgz'', download_cmd ''uf.tgz'' example_url],
              close_calls = 0\<rparr>"
  let ?c4 = "\<lparr>peer = ?pr,
              issued = [installed_cmd, ''uptime'', free_cmd, df_cmd, ''uname -s'',
                        downloaded_cmd ''uf.tgz'', download_cmd ''uf.tgz'' example_url,
                        ''cd /opt && tar xzf /tmp/uf.tgz''],
              close_calls = 0\<rparr>"
  let ?ch = "\<lparr>recv_exit_status = 0, stdout_read = Inr [], stderr_read = Inr []\<rparr>"
  have os: "get_default (os_type example_server) ''linux'' = ''linux''"
    by (simp add: example_server_def get_default_def)
  have g: "check_system_resources ?cfg ?c1 = ((True, ''resource check passed''), ?c2)"
    by (simp add: check_system_resources_def check_system_resources_try_def run_stdout_eq
      provisioned_host_answers reply_def read_stripped_def except_false_def
      forced_config_fields get_default_def strip_examples py_int_examples)
  have d: "download_splunk_package ?c2 example_url ''linux'' = ((True, ''/tmp/uf.tgz''), ?c3)"
    by (simp add: download_splunk_package_def download_splunk_package_try_def run_stdout_eq
      exec_command_def provisioned_host_answers reply_def read_stripped_def except_false_def
      strip_examples segment_example_url Let_def)
  have i: "install_splunk ?c3 ''/tmp/uf.tgz'' ''linux'' = ((True, ''install succeeded''), ?c4)"
    by (simp add: install_splunk_def install_splunk_try_def run_install_def exec_command_def
      provisioned_host_answers reply_def except_false_def lower_examples endswith_def)
  have inter: "\<forall>k < length (configure_commands ?cfg) - 1.
           \<not> isl (respond (peer ?c4) (issued ?c4 @ take k (configure_commands ?cfg))
                    (configure_commands ?cfg ! k))"
    by (simp add: provisioned_host_accepts)
  have start: "respond (peer ?c4) (issued ?c4 @ butlast (configure_commands ?cfg))
               (splunk_bin @ '' start'') = Inr ?ch"
    by (simp add: provisioned_host_answers reply_def)
  have c: "configure_splunk ?cfg ?c4 =
      ((True, ''configuration succeeded''),
       ?c4\<lparr>issued := issued ?c4 @ configure_commands ?cfg\<rparr>)"
    using configure_splunk_try_run [OF inter start]
    by (simp add: configure_splunk_def except_false_def)
  show ?thesis
    by (simp add: install_steps_def g d i c os forced_config_fields cleanup_def exec_command_def
        get_default_def example_server_def)
qed

theorem installed_host_is_skipped_unless_forced_witness:
  "install_on_server (env_of provisioned_host) example_config example_server =
     (Inr \<lparr>result_host = ''10.0.0.1'', success = True,
           message = ''Splunk UF already installed, skipping'', timestamp = ''t0''\<rparr>,
      Some \<lparr>peer = provisioned_host, issued = [installed_cmd], close_calls = 1\<rparr>)
   \<and> install_on_server (env_of provisioned_host) (example_config\<lparr>force_reinstall := Some True\<rparr>)
       example_server =
     (Inr \<lparr>result_host = ''10.0.0.1'', success = True,
           message = ''installed and configured successfully'', timestamp = ''t0''\<rparr>,
      Some \<lparr>peer = provisioned_host,
            issued = [installed_cmd, ''uptime'', free_cmd, df_cmd, ''uname -s'',
                      downloaded_cmd ''uf.tgz'', download_cmd ''uf.tgz'' example_url,
                      ''cd /opt && tar xzf /tmp/uf.tgz'']
                     @ configure_commands (example_config\<lparr>force_reinstall := Some True\<rparr>)
                     @ [''rm -f /tmp/uf.tgz''],
            close_calls = 1\<rparr>)"
proof -
  let ?c = "\<lparr>peer = provisioned_host, issued = [], close_calls = 0\<rparr>"
  let ?ch = "\<lparr>recv_exit_status = 0, stdout_read = Inr ''exists'', stderr_read = Inr []\<rparr>"
  let ?res = "\<lparr>result_host = ''10.0.0.1'', success = False, message = [], timestamp = ''t0''\<rparr>"
  have h1: "connect_server (env_of provisioned_host) example_server = Inr ?c"
    by (simp add: fixture_defs)
  have h2: "respond (peer ?c) [] installed_cmd = Inr ?ch"
    by (simp add: provisioned_host_answers reply_def)
  have h3: "stdout_read ?ch = Inr ''exists''"
    by simp
  have h4: "strip ''exists'' = ''exists''"
    by (rule strip_exists)
  have h5: "?res = \<lparr>result_host = host example_server, success = False, message = [],
                 timestamp = clock_start (env_of provisioned_host)\<rparr>"
    by (simp add: example_server_def env_of_def)
  have unforced: "\<not> get_default (force_reinstall example_config) False"
    by (simp add: example_config_fields get_default_def)
  have forced: "get_default (force_reinstall (example_config\<lparr>force_reinstall := Some True\<rparr>)) False"
    by (simp add: get_default_def)
  have closes: "close_raises provisioned_host = None"
    by (simp add: provisioned_host_def answers_def)
  have a: "install_on_server (env_of provisioned_host) example_config example_server =
     (Inr \<lparr>result_host = ''10.0.0.1'', success = True,
           message = ''Splunk UF already installed, skipping'', timestamp = ''t0''\<rparr>,
      Some \<lparr>peer = provisioned_host, issued = [installed_cmd], close_calls = 1\<rparr>)"
    using installed_host_is_skipped_unless_forced [OF h1 h2 h3 h4 h5, of example_config] unforced
    by (simp add: closes example_server_def env_of_def)
  have b: "install_on_server (env_of provisioned_host)
       (example_config\<lparr>force_reinstall := Some True\<rparr>) example_server =
     (Inr \<lparr>result_host = ''10.0.0.1'', success = True,
           message = ''installed and configured successfully'', timestamp = ''t0''\<rparr>,
      Some \<lparr>peer = provisioned_host,
            issued = [installed_cmd, ''uptime'', free_cmd, df_cmd, ''uname -s'',
                      downloaded_cmd ''uf.tgz'', download_cmd ''uf.tgz'' example_url,
                      ''cd /opt && tar xzf /tmp/uf.tgz'']
                     @ configure_commands (example_config\<lparr>force_reinstall := Some True\<rparr>)
                     @ [''rm -f /tmp/uf.tgz''],
            close_calls = 1\<rparr>)"
    using installed_host_is_skipped_unless_forced [OF h1 h2 h3 h4 h5,
        of "example_config\<lparr>force_reinstall := Some True\<rparr>"] forced
    by (simp add: closes provisioned_host_forced_steps)
  show ?thesis
    using a b by simp
qed

subsection \<open>The commands of the configuration sequence\<close>

lemma issued_after_status:
  assumes "issued c = h"
    and "\<exists>k. issued (snd (f () (c\<lparr>issued := h @ [cmd]\<rparr>))) = (h @ [cmd]) @ take k rest"
  shows "\<exists>k. issued (snd (then_do (run_status c cmd) f)) = h @ take k (cmd # rest)"
proof (cases "respond (peer c) (issued c) cmd")
  case (Inl e)
  then have "issued (snd (then_do (run_status c cmd) f)) = h @ take 1 (cmd # rest)"
    using assms(1) by (simp add: run_status_eq)
  then show ?thesis
    by (intro exI [of _ 1])
next
  case (Inr ch)
  from assms(2) obtain k where
      k: "issued (snd (f () (c\<lparr>issued := h @ [cmd]\<rparr>))) = (h @ [cmd]) @ take k rest"
    by blast
  have "issued (snd (then_do (run_status c cmd) f)) = h @ take (Suc k) (cmd # rest)"
    using Inr assms(1) k by (simp add: run_status_eq)
  then show ?thesis
    by (intro exI [of _ "Suc k"])
qed

lemma issued_after_start:
  "issued (snd (then_do (exec_command c cmd) (\<lambda>ch c6.
        if recv_exit_status ch \<noteq> 0
        then then_do (read_stripped (stderr_read ch), c6) (\<lambda>error_msg c6.
               (Inr (False, ''start failed: '' @ error_msg), c6))
        else (Inr (True, ''configuration succeeded''), c6)))) = issued c @ [cmd]"
proof (cases "respond (peer c) (issued c) cmd")
  case (Inl e)
  then show ?thesis
    by (simp add: exec_command_def)
next
  case (Inr ch)
  then show ?thesis
    by (cases "read_stripped (stderr_read ch)") (simp_all add: exec_command_def)
qed

lemma configure_splunk_issues_prefix:
  "\<exists>k.
     issued (snd (configure_splunk cfg c)) = issued c @ take k (configure_commands cfg)"
proof -
  define sc where "sc = get_default (splunk_config cfg)
       \<lparr>download_url = None, deployment_server = None, receiving_indexer = None\<rparr>"
  define ds where "ds = get_default (deployment_server sc) []"
  define ri where "ri = get_default (receiving_indexer sc) []"
  define a where "a = splunk_bin @ '' start --accept-license --answer-yes --no-prompt''"
  define b where "b = splunk_bin @ '' stop''"
  define d where "d = splunk_bin @ '' set deploy-poll '' @ ds @ '' -auth admin:changeme''"
  define f where "f = splunk_bin @ '' add forward-server '' @ ri @ '' -auth admin:changeme''"
  define g where "g = splunk_bin @ '' enable boot-start''"
  define s where "s = splunk_bin @ '' start''"
  have cmds: "configure_commands cfg =
      [a, b] @ (if ds \<noteq> [] then [d] else []) @ (if ri \<noteq> [] then [f] else []) @ [g, s]"
    by (simp add: configure_commands_def sc_def ds_def ri_def a_def b_def d_def f_def
        g_def s_def Let_def)
  have body: "configure_splunk_try cfg c =
      then_do (run_status c a) (\<lambda>_ c1.
      then_do (run_status c1 b) (\<lambda>_ c2.
      then_do (if ds \<noteq> [] then run_status c2 d else (Inr (), c2)) (\<lambda>_ c3.
      then_do (if ri \<noteq> [] then run_status c3 f else (Inr (), c3)) (\<lambda>_ c4.
      then_do (run_status c4 g) (\<lambda>_ c5.
      then_do (exec_command c5 s) (\<lambda>ch c6.
        if recv_exit_status ch \<noteq> 0
        then then_do (read_stripped (stderr_read ch), c6) (\<lambda>error_msg c6.
               (Inr (False, ''start failed: '' @ error_msg), c6))
        else (Inr (True, ''configuration succeeded''), c6)))))))"
    unfolding configure_splunk_try_def Let_def ds_def ri_def sc_def a_def b_def d_def f_def
      g_def s_def
    by (rule refl)
  have "\<exists>k.
     issued (snd (configure_splunk_try cfg c)) = issued c @ take k (configure_commands cfg)"
  proof (cases "ds \<noteq> []")
    case dsT: True
    show ?thesis
    proof (cases "ri \<noteq> []")
      case riT: True
      show ?thesis
        unfolding body cmds using dsT riT
        apply simp
        apply (rule issued_after_status, simp)+
        apply (rule exI [of _ 1])
        apply (simp add: issued_after_start)
        done
    next
      case riF: False
      show ?thesis
        unfolding body cmds using dsT riF
        apply simp
        apply (rule issued_after_status, simp)+
        apply (rule exI [of _ 1])
        apply (simp add: issued_after_start)
        done
    qed
  next
    case dsF: False
    show ?thesis
    proof (cases "ri \<noteq> []")
      case riT: True
      show ?thesis
        unfolding body cmds using dsF riT
        apply simp
        apply (rule issued_after_status, simp)+
        apply (rule exI [of _ 1])
        apply (simp add: issued_after_start)
        done
    next
      case riF: False
      show ?thesis
        unfolding body cmds using dsF riF
        apply simp
        apply (rule issued_after_status, simp)+
        apply (rule exI [of _ 1])
        apply (simp add: issued_after_start)
        done
    qed
  qed
  moreover have "snd (configure_splunk cfg c) = snd (configure_splunk_try cfg c)"
    by (cases "configure_splunk_try cfg c")
       (auto simp: configure_splunk_def except_false_def split: sum.splits)
  ultimately show ?thesis
    by simp
qed

lemma configure_splunk_issues_all:
  assumes "\<forall>h cmd. \<not> isl (respond (peer c) h cmd)"
  shows "issued (snd (configure_splunk cfg c)) = issued c @ configure_commands cfg"
proof -
  let ?cmds = "configure_commands cfg"
  have inter: "\<forall>k < length ?cmds - 1. \<not> isl (respond (peer c) (issued c @ take k ?cmds) (?cmds ! k))"
    using assms by simp
  obtain ch where start: "respond (peer c) (issued c @ butlast ?cmds) (splunk_bin @ '' start'') = Inr ch"
    using assms [rule_format, of "issued c @ butlast ?cmds" "splunk_bin @ '' start''"]
    by (cases "respond (peer c) (issued c @ butlast ?cmds) (splunk_bin @ '' start'')") auto
  have "snd (configure_splunk_try cfg c) = c\<lparr>issued := issued c @ ?cmds\<rparr>"
    using configure_splunk_try_run [OF inter start] by simp
  then have "snd (configure_splunk cfg c) = c\<lparr>issued := issued c @ ?cmds\<rparr>"
    by (cases "configure_splunk_try cfg c")
       (auto simp: configure_splunk_def except_false_def split: sum.splits)
  then show ?thesis
    by simp
qed

text \<open>
  Claim C10, as the code has it. The commands that \<^verbatim>\<open>configure_splunk\<close> issues are, for
  every configuration and every host, an initial part of this sequence: the license
  acceptance, the stop, the deployment server command when that address is not empty, the
  forward-server command when the indexer address is not empty, the boot-start and the
  start; on a host that accepts every command they are the whole sequence. Each of the two
  address commands is fixed text, the configured address as it stands, and the literal
  \<^verbatim>\<open>-auth admin:changeme\<close> at the end. No field of the configuration is read for the
  credential. The address is not escaped, and nothing is said here about an address whose
  own text holds further arguments.
\<close>

theorem address_commands_end_with_literal_credential:
  assumes "sc = get_default (splunk_config cfg)
           \<lparr>download_url = None, deployment_server = None, receiving_indexer = None\<rparr>"
    and "ds = get_default (deployment_server sc) []"
    and "ri = get_default (receiving_indexer sc) []"
    and "cmds =
       [splunk_bin @ '' start --accept-license --answer-yes --no-prompt'', splunk_bin @ '' stop'']
       @ (if ds \<noteq> [] then [splunk_bin @ '' set deploy-poll '' @ ds @ '' -auth admin:changeme'']
          else [])
       @ (if ri \<noteq> [] then [splunk_bin @ '' add forward-server '' @ ri @ '' -auth admin:changeme'']
          else [])
       @ [splunk_bin @ '' enable boot-start'', splunk_bin @ '' start'']"
  shows "(\<exists>k. issued (snd (configure_splunk cfg c)) = issued c @ take k cmds)
       \<and> ((\<forall>h cmd. \<not> isl (respond (peer c) h cmd)) \<longrightarrow>
            issued (snd (configure_splunk cfg c)) = issued c @ cmds)"
proof -
  have cmds: "cmds = configure_commands cfg"
    by (simp add: configure_commands_def assms Let_def)
  show ?thesis
    unfolding cmds
    using configure_splunk_issues_prefix [of cfg c] configure_splunk_issues_all [of c cfg]
    by blast
qed

lemma bare_host_accepts: "\<not> isl (respond bare_host h cmd)"
  by (simp add: bare_host_def answers_def reply_def)

theorem address_commands_end_with_literal_credential_witness:
  "issued (snd (configure_splunk example_config
       \<lparr>peer = bare_host, issued = [], close_calls = 0\<rparr>)) =
     [splunk_bin @ '' start --accept-license --answer-yes --no-prompt'',
      splunk_bin @ '' stop'',
      splunk_bin @ '' set deploy-poll ds:8089 -auth admin:changeme'',
      splunk_bin @ '' enable boot-start'',
      splunk_bin @ '' start'']"
proof -
  let ?c = "\<lparr>peer = bare_host, issued = [], close_calls = 0\<rparr>"
  let ?sc = "\<lparr>download_url = Some example_url, deployment_server = Some ''ds:8089'',
              receiving_indexer = None\<rparr>"
  have h0: "\<forall>h cmd. \<not> isl (respond (peer ?c) h cmd)"
    by (simp add: bare_host_accepts)
  have h1: "?sc = get_default (splunk_config example_config)
           \<lparr>download_url = None, deployment_server = None, receiving_indexer = None\<rparr>"
    by (simp add: example_config_fields get_default_def)
  have h2: "''ds:8089'' = get_default (deployment_server ?sc) []"
    by (simp add: get_default_def)
  have h3: "[] = get_default (receiving_indexer ?sc) []"
    by (simp add: get_default_def)
  show ?thesis
    using address_commands_end_with_literal_credential [OF h1 h2 h3 refl, of ?c] h0
    by simp
qed

text \<open>
  Claim C10 as stated fails in its second half. The deployment server address is a field
  of the run configuration and is spliced into the command without quoting, so an address
  that carries an \<^verbatim>\<open>-auth\<close> argument of its own and a comment sign puts another credential
  in front of the literal one.
\<close>

theorem address_field_supplies_another_credential:
  "issued (snd (configure_splunk
       (example_config\<lparr>splunk_config :=
          Some \<lparr>download_url = Some example_url,
                deployment_server = Some ''ds:8089 -auth root:hunter2 #'',
                receiving_indexer = None\<rparr>\<rparr>)
       \<lparr>peer = bare_host, issued = [], close_calls = 0\<rparr>)) =
     [splunk_bin @ '' start --accept-license --answer-yes --no-prompt'',
      splunk_bin @ '' stop'',
      splunk_bin @ '' set deploy-poll ds:8089 -auth root:hunter2 # -auth admin:changeme'',
      splunk_bin @ '' enable boot-start'',
      splunk_bin @ '' start'']"
proof -
  let ?c = "\<lparr>peer = bare_host, issued = [], close_calls = 0\<rparr>"
  have h0: "\<forall>h cmd. \<not> isl (respond (peer ?c) h cmd)"
    by (simp add: bare_host_accepts)
  show ?thesis
    using configure_splunk_issues_all [OF h0]
    by (simp add: configure_commands_def example_config_def get_default_def)
qed

subsection \<open>Fleet runs: the results recorded\<close>






lemma on_completed_sleep_raises:
  assumes "fst (install_on_server (host_envs fe i) cfg srv) = Inr res"
    and "0 < delay"
    and "sleep (host_envs fe i) delay = Some e"
  shows "on_completed fe cfg delay rs (i, srv) =
     rs @ [res, \<lparr>result_host = host srv, success = False, message = e,
                 timestamp = clock_except (host_envs fe i)\<rparr>]"
  using assms by (simp add: on_completed_def)





subsection \<open>The process: what ends it with an error\<close>








end
